theory Spec2Isabelle
  imports Complex_Main "HOL-Library.Word" "HOL-Library.Sublist" "HOL-Library.AList"
begin

section \<open>JavaScript values\<close>

text \<open>
  A JavaScript string is a sequence of UTF-16 code units: \<open>length\<close> and
  \<open>substring\<close> count code units. The literals of the source are ASCII and written
  with \<open>lit\<close>.
\<close>

type_synonym code_unit = "16 word"
type_synonym js_string = "code_unit list"

definition lit :: "string \<Rightarrow> js_string" where
  "lit s = map of_char s"

text \<open>\<^verbatim>\<open>s.substring(0, n)\<close> for a non-negative constant \<open>n\<close>.\<close>

definition substring0 :: "js_string \<Rightarrow> nat \<Rightarrow> js_string" where
  "substring0 s n = take n s"

text \<open>
  An exception value. The source only builds \<^verbatim>\<open>new Error(message)\<close> and only reads
  \<^verbatim>\<open>.message\<close> of what it catches; reading a property of \<^verbatim>\<open>undefined\<close> raises a
  \<^verbatim>\<open>TypeError\<close>.
\<close>

datatype js_error = Error js_string | TypeError js_string

fun message :: "js_error \<Rightarrow> js_string" where
  "message (Error m) = m"
| "message (TypeError m) = m"

type_synonym vector = "real list"
type_synonym bytes = "8 word list"

text \<open>
  The values stored in the \<^verbatim>\<open>metadata\<close> object of a LangChain document. An object
  is an association list: its keys in insertion order.
\<close>

datatype js_value = Num int | Str js_string | Obj "(string \<times> js_value) list"

text \<open>Decimal digits of a number inside a template literal.\<close>

function to_decimal :: "nat \<Rightarrow> js_string" where
  "to_decimal n =
     (if n < 10 then [of_nat (48 + n)]
      else to_decimal (n div 10) @ [of_nat (48 + n mod 10)])"
  by pat_completeness auto
termination
  by (relation "measure (\<lambda>n. n)") auto

declare to_decimal.simps [simp del]

text \<open>\<^verbatim>\<open>Array.prototype.join\<close>\<close>

fun join :: "js_string \<Rightarrow> js_string list \<Rightarrow> js_string" where
  "join sep [] = []"
| "join sep [x] = x"
| "join sep (x # y # ys) = x @ sep @ join sep (y # ys)"

section \<open>OpenRouterEmbeddings (openrouter/openrouter.embeddings.ts)\<close>

record EmbeddingData =
  object :: js_string
  embedding :: vector
  index :: int

text \<open>
  \<^verbatim>\<open>EmbeddingResponse\<close>: only \<^verbatim>\<open>data\<close> is read; it may be missing (\<open>None\<close>), which
  \<^verbatim>\<open>!res.data\<close> tests.
\<close>

record EmbeddingResponse =
  data :: "EmbeddingData list option"
  model :: js_string

text \<open>
  The client of the remote API. \<open>generate k m t\<close> is what the \<open>k\<close>-th remote call of
  the process answers for model \<open>m\<close> and input \<open>t\<close>: a rejection or a response. The number
  of calls made so far is the state that the embedding functions thread.
\<close>

record OpenRouterEmbeddings =
  modelName :: js_string
  generate :: "nat \<Rightarrow> js_string \<Rightarrow> js_string \<Rightarrow> js_error + EmbeddingResponse"

text \<open>
  \<^verbatim>\<open>embedQuery\<close>: one remote call; a rejection is logged and rethrown unchanged, a
  response without data raises \<^verbatim>\<open>Error('OpenRouter returned no embedding')\<close>, which the
  same \<^verbatim>\<open>catch\<close> rethrows.
\<close>

definition embedQuery :: "OpenRouterEmbeddings \<Rightarrow> js_string \<Rightarrow> nat \<Rightarrow> (js_error + vector) \<times> nat" where
  "embedQuery c text n =
     ((case generate c n (modelName c) text of
         Inl err \<Rightarrow> Inl err
       | Inr res \<Rightarrow>
           (case data res of
              None \<Rightarrow> Inl (Error (lit ''OpenRouter returned no embedding''))
            | Some [] \<Rightarrow> Inl (Error (lit ''OpenRouter returned no embedding''))
            | Some (d # _) \<Rightarrow> Inr (embedding d))),
      Suc n)"

text \<open>
  The function that \<^verbatim>\<open>embedDocuments\<close> hands to the limiter for one text: the
  embedding, or \<^verbatim>\<open>Error(`Failed to embed text: "${text.substring(0, 20)}...": ${error.message}`)\<close>.
\<close>

definition embed_task :: "OpenRouterEmbeddings \<Rightarrow> js_string \<Rightarrow> nat \<Rightarrow> (js_error + vector) \<times> nat" where
  "embed_task c text n =
     (case embedQuery c text n of
        (Inl err, n') \<Rightarrow>
          (Inl (Error (lit ''Failed to embed text: \"'' @ substring0 text 20 @ lit ''...\": ''
                        @ message err)), n')
      | (Inr v, n') \<Rightarrow> (Inr v, n'))"

text \<open>
  \<^verbatim>\<open>texts.map(text => this.rateLimiter(...))\<close> with \<^verbatim>\<open>pLimit(1)\<close>: the tasks run one
  after the other in the order of the texts, and a task that rejects does not stop the
  tasks queued behind it. The result is the list of settled outcomes, in input order.
\<close>

fun run_tasks :: "OpenRouterEmbeddings \<Rightarrow> js_string list \<Rightarrow> nat \<Rightarrow> (js_error + vector) list \<times> nat" where
  "run_tasks c [] n = ([], n)"
| "run_tasks c (t # ts) n =
     (case embed_task c t n of
        (r, n') \<Rightarrow> (case run_tasks c ts n' of (rs, n'') \<Rightarrow> (r # rs, n'')))"

text \<open>
  \<^verbatim>\<open>Promise.all\<close> over promises that settle in list order: the values in order, or the
  first rejection.
\<close>

fun promise_all :: "('e + 'a) list \<Rightarrow> 'e + 'a list" where
  "promise_all [] = Inr []"
| "promise_all (Inl e # rs) = Inl e"
| "promise_all (Inr v # rs) =
     (case promise_all rs of Inl e \<Rightarrow> Inl e | Inr vs \<Rightarrow> Inr (v # vs))"

definition embedDocuments :: "OpenRouterEmbeddings \<Rightarrow> js_string list \<Rightarrow> nat \<Rightarrow> (js_error + vector list) \<times> nat" where
  "embedDocuments c texts n =
     (case run_tasks c texts n of (rs, n') \<Rightarrow> (promise_all rs, n'))"

section \<open>The collaborators and the state of the process\<close>

text \<open>The entity of documents/entities/document.entity.ts (a row of table \<^verbatim>\<open>documents\<close>).\<close>

record Document =
  id' :: nat
  file_name :: js_string
  storage_path :: js_string
  status :: js_string
  created_at :: nat

text \<open>A LangChain document: a page of the loader or a chunk of the splitter.\<close>

record LangChainDocument =
  pageContent :: js_string
  metadata :: "(string \<times> js_value) list"

text \<open>A row of table \<^verbatim>\<open>vectors\<close>.\<close>

record VectorRecord =
  row_content :: js_string
  row_metadata :: "(string \<times> js_value) list"
  row_embedding :: vector

datatype fs_node = Dir | File bytes

datatype log_level = LOG | WARN | ERROR | CONSOLE

text \<open>
  What the process can change: the local file system, the rows of table \<^verbatim>\<open>vectors\<close>,
  the rows of table \<^verbatim>\<open>documents\<close>, the lines written through the logger and the console
  (level and arguments of each call), and the number of remote embedding calls made
  through \<^verbatim>\<open>OpenRouterEmbeddings\<close>.
\<close>

record world =
  fs :: "js_string \<Rightarrow> fs_node option"
  vectors :: "VectorRecord list"
  documents :: "Document list"
  logs :: "(log_level \<times> js_string list) list"
  api_calls :: nat

text \<open>
  What the collaborators outside the repository answer: the working directory, the
  failures of the file-system calls, Supabase Storage (\<open>Inl\<close> is \<^verbatim>\<open>error.message\<close>), the
  PDF loader on the content of a file, the text splitter with its chunk size and overlap,
  the OpenAI embedding client of the library, the insert into table \<^verbatim>\<open>vectors\<close>, the
  clock, the save into table \<^verbatim>\<open>documents\<close> and the stack trace that the runtime
  attached to an error (\<^verbatim>\<open>e.stack\<close>).
\<close>

record env =
  cwd :: js_string
  fs_mkdir :: "js_string \<Rightarrow> js_error option"
  fs_writeFile :: "js_string \<Rightarrow> bytes \<Rightarrow> js_error option"
  fs_rm :: "js_string \<Rightarrow> js_error option"
  storage_download :: "js_string \<Rightarrow> js_string + bytes"
  storage_upload :: "js_string \<Rightarrow> bytes \<Rightarrow> js_string option"
  pdf_parse :: "bytes \<Rightarrow> js_error + LangChainDocument list"
  splitDocuments :: "nat \<Rightarrow> nat \<Rightarrow> LangChainDocument list \<Rightarrow> js_error + LangChainDocument list"
  openai_embedDocuments :: "js_string list \<Rightarrow> js_error + vector list"
  vectors_insert :: "VectorRecord list \<Rightarrow> js_error option"
  date_now :: nat
  repository_save :: "Document \<Rightarrow> js_error option"
  error_stack :: "js_error \<Rightarrow> js_string"

subsection \<open>Asynchronous code that may throw\<close>

text \<open>
  An \<^verbatim>\<open>async\<close> computation run to its end: it takes the state and gives the value it
  resolves to or the error it rejects with, and the state it leaves.
\<close>

type_synonym 'a io = "world \<Rightarrow> (js_error + 'a) \<times> world"

definition returns :: "'a \<Rightarrow> 'a io" where
  "returns x s = (Inr x, s)"

definition throw :: "js_error \<Rightarrow> 'a io" where
  "throw e s = (Inl e, s)"

definition andThen :: "'a io \<Rightarrow> ('a \<Rightarrow> 'b io) \<Rightarrow> 'b io" where
  "andThen m f s = (case m s of (Inl e, s') \<Rightarrow> (Inl e, s') | (Inr x, s') \<Rightarrow> f x s')"

text \<open>\<^verbatim>\<open>try { m } catch (e) { h(e) }\<close>\<close>

definition try_catch :: "'a io \<Rightarrow> (js_error \<Rightarrow> 'a io) \<Rightarrow> 'a io" where
  "try_catch m h s = (case m s of (Inl e, s') \<Rightarrow> h e s' | (Inr x, s') \<Rightarrow> (Inr x, s'))"

text \<open>
  \<^verbatim>\<open>try { m } finally { fin }\<close>: the finaliser runs after \<open>m\<close> whatever its outcome; an
  error of the finaliser replaces the outcome of \<open>m\<close>.
\<close>

definition try_finally :: "'a io \<Rightarrow> unit io \<Rightarrow> 'a io" where
  "try_finally m fin s =
     (case m s of (r, s') \<Rightarrow>
        (case fin s' of (Inl e, s'') \<Rightarrow> (Inl e, s'') | (Inr _, s'') \<Rightarrow> (r, s'')))"

definition logger :: "log_level \<Rightarrow> js_string list \<Rightarrow> unit io" where
  "logger lvl args s = (Inr (), s\<lparr>logs := logs s @ [(lvl, args)]\<rparr>)"

text \<open>
  \<^verbatim>\<open>path.join\<close> of Node (POSIX) is library code. Its arguments that are not empty are
  joined by \<^verbatim>\<open>/\<close> and the result is normalised: the path is cut at its separators,
  empty segments and \<^verbatim>\<open>.\<close> are dropped, and \<^verbatim>\<open>..\<close> removes the segment before it; with
  no segment before it \<^verbatim>\<open>..\<close> is dropped in an absolute path and kept in a relative one.
\<close>

definition slash :: code_unit where
  "slash = 0x002F"

fun split_on :: "'a \<Rightarrow> 'a list \<Rightarrow> 'a list list" where
  "split_on sep [] = [[]]"
| "split_on sep (x # xs) =
     (if x = sep then [] # split_on sep xs
      else (case split_on sep xs of
              [] \<Rightarrow> [[x]]
            | seg # segs \<Rightarrow> (x # seg) # segs))"

text \<open>The segments kept so far are in \<open>res\<close>, the last one first.\<close>

fun normalizeString :: "bool \<Rightarrow> js_string list \<Rightarrow> js_string list \<Rightarrow> js_string list" where
  "normalizeString allowAboveRoot [] res = rev res"
| "normalizeString allowAboveRoot (seg # segs) res =
     (if seg = [] \<or> seg = lit ''.'' then normalizeString allowAboveRoot segs res
      else if seg = lit ''..'' then
        (case res of
           [] \<Rightarrow> normalizeString allowAboveRoot segs (if allowAboveRoot then [seg] else [])
         | prev # rest \<Rightarrow>
             if prev = lit ''..''
             then normalizeString allowAboveRoot segs (if allowAboveRoot then seg # res else res)
             else normalizeString allowAboveRoot segs rest)
      else normalizeString allowAboveRoot segs (seg # res))"

definition normalize :: "js_string \<Rightarrow> js_string" where
  "normalize path =
     (if path = [] then lit ''.''
      else
        let isAbsolute = (hd path = slash);
            trailingSeparator = (last path = slash);
            body = join [slash] (normalizeString (\<not> isAbsolute) (split_on slash path) [])
        in if body = []
           then (if isAbsolute then lit ''/'' else if trailingSeparator then lit ''./'' else lit ''.'')
           else (if isAbsolute then [slash] else []) @ body
                  @ (if trailingSeparator then [slash] else []))"

definition path_join :: "js_string \<Rightarrow> js_string \<Rightarrow> js_string" where
  "path_join a b =
     (let joined = (if a = [] then b else if b = [] then a else a @ [slash] @ b)
      in if joined = [] then lit ''.'' else normalize joined)"

text \<open>A path is inside \<open>dir\<close> when it is \<open>dir\<close> or continues it after a separator.\<close>

definition inside :: "js_string \<Rightarrow> js_string \<Rightarrow> bool" where
  "inside dir p \<longleftrightarrow> p = dir \<or> prefix (dir @ lit ''/'') p"

text \<open>\<^verbatim>\<open>fs.mkdir(dir, { recursive: true })\<close>\<close>

definition mkdir :: "env \<Rightarrow> js_string \<Rightarrow> unit io" where
  "mkdir e dir s =
     (case fs_mkdir e dir of
        Some err \<Rightarrow> (Inl err, s)
      | None \<Rightarrow> (Inr (), s\<lparr>fs := (fs s)(dir \<mapsto> Dir)\<rparr>))"

text \<open>\<^verbatim>\<open>fs.writeFile(path, Buffer.from(buffer))\<close>\<close>

definition writeFile :: "env \<Rightarrow> js_string \<Rightarrow> bytes \<Rightarrow> unit io" where
  "writeFile e path buffer s =
     (case fs_writeFile e path buffer of
        Some err \<Rightarrow> (Inl err, s)
      | None \<Rightarrow> (Inr (), s\<lparr>fs := (fs s)(path \<mapsto> File buffer)\<rparr>))"

text \<open>\<^verbatim>\<open>fs.rm(dir, { recursive: true, force: true })\<close>: removes \<open>dir\<close> and all inside it.\<close>

definition rm :: "env \<Rightarrow> js_string \<Rightarrow> unit io" where
  "rm e dir s =
     (case fs_rm e dir of
        Some err \<Rightarrow> (Inl err, s)
      | None \<Rightarrow> (Inr (), s\<lparr>fs := (\<lambda>p. if inside dir p then None else fs s p)\<rparr>))"

text \<open>
  \<^verbatim>\<open>supabase.storage.from('documents').download(path)\<close> and the check of its
  \<^verbatim>\<open>error\<close>, then \<^verbatim>\<open>data.arrayBuffer()\<close>.
\<close>

definition download :: "env \<Rightarrow> js_string \<Rightarrow> bytes io" where
  "download e path =
     (case storage_download e path of
        Inl msg \<Rightarrow> throw (Error (lit ''Supabase download error: '' @ msg))
      | Inr buffer \<Rightarrow> returns buffer)"

text \<open>
  \<^verbatim>\<open>new PDFLoader(path, { splitPages: true, ... }).load()\<close>: the loader reads the file
  at \<open>path\<close> and parses it as a PDF, one document per page.
\<close>

definition PDFLoader_load :: "env \<Rightarrow> js_string \<Rightarrow> LangChainDocument list io" where
  "PDFLoader_load e path s =
     (case fs s path of
        Some (File content) \<Rightarrow> (pdf_parse e content, s)
      | _ \<Rightarrow> (Inl (Error (lit ''ENOENT: no such file or directory, open '' @ path)), s))"

text \<open>
  Modelled from the spec: \<^verbatim>\<open>SupabaseVectorStore.addVectors\<close> is library code. Section
  4.3: the lengths must match (\<^verbatim>\<open>LengthMismatch\<close> otherwise), each pair becomes one
  record, the table is append-only. The insert itself may fail.
\<close>

definition addVectors :: "env \<Rightarrow> vector list \<Rightarrow> LangChainDocument list \<Rightarrow> unit io" where
  "addVectors e vs docs s =
     (if length vs \<noteq> length docs then (Inl (Error (lit ''LengthMismatch'')), s)
      else
        let rows = map (\<lambda>(v, d). \<lparr>row_content = pageContent d, row_metadata = metadata d,
                                      row_embedding = v\<rparr>) (zip vs docs)
        in case vectors_insert e rows of
             Some err \<Rightarrow> (Inl err, s)
           | None \<Rightarrow> (Inr (), s\<lparr>vectors := vectors s @ rows\<rparr>))"

section \<open>IngestionService.ingestDocument (ingestion/ingestion.service.ts)\<close>

text \<open>The object that \<^verbatim>\<open>ingestDocument\<close> returns on its last line.\<close>

record ingest_result =
  chunkCount :: nat
  firstChunkText :: js_string

text \<open>
  The callback of \<^verbatim>\<open>chunks.map\<close>: it sets \<^verbatim>\<open>documentId\<close> and \<^verbatim>\<open>source\<close> and deletes
  \<^verbatim>\<open>loc\<close> in the metadata of the chunk. The callback changes the chunk itself, so
  \<^verbatim>\<open>chunks\<close> and \<^verbatim>\<open>chunksWithMetadata\<close> hold the same objects; \<^verbatim>\<open>pageContent\<close> is not
  touched.
\<close>

definition with_metadata :: "Document \<Rightarrow> LangChainDocument \<Rightarrow> LangChainDocument" where
  "with_metadata document chunk =
     chunk\<lparr>metadata :=
       AList.delete ''loc''
         (AList.update ''source'' (Str (file_name document))
           (AList.update ''documentId'' (Num (int (id' document))) (metadata chunk)))\<rparr>"

text \<open>
  \<^verbatim>\<open>chunks[0].pageContent.substring(0, 200) + '...'\<close>: on an empty list \<^verbatim>\<open>chunks[0]\<close> is
  \<^verbatim>\<open>undefined\<close> and the property read throws.
\<close>

definition first_chunk_text :: "LangChainDocument list \<Rightarrow> js_error + js_string" where
  "first_chunk_text chunks =
     (case chunks of
        [] \<Rightarrow> Inl (TypeError (lit ''Cannot read properties of undefined (reading '' @ [0x0027]
                                   @ lit ''pageContent'' @ [0x0027] @ lit '')''))
      | c # _ \<Rightarrow> Inr (substring0 (pageContent c) 200 @ lit ''...''))"

definition build_result :: "LangChainDocument list \<Rightarrow> ingest_result option io" where
  "build_result chunks =
     (case first_chunk_text chunks of
        Inl err \<Rightarrow> throw err
      | Inr t \<Rightarrow> returns (Some \<lparr>chunkCount = length chunks, firstChunkText = t\<rparr>))"

text \<open>
  The inner \<^verbatim>\<open>try\<close>/\<^verbatim>\<open>catch\<close> around the embedding call (lines 208 to 225): the client
  here is the library's OpenAI embedding client.
\<close>

definition embed_step :: "env \<Rightarrow> LangChainDocument list \<Rightarrow> vector list io" where
  "embed_step e chunksWithMetadata =
     try_catch
       (andThen (\<lambda>s. (openai_embedDocuments e (map pageContent chunksWithMetadata), s))
          (\<lambda>embeddingsResponse.
       andThen (logger LOG [lit ''Successfully embedded documents via OpenRouter.''])
          (\<lambda>_. returns embeddingsResponse)))
       (\<lambda>embedError.
          andThen (logger ERROR [lit ''--- OPEN ROUTER API ERROR ---'']) (\<lambda>_.
          andThen (logger ERROR [lit ''Failed to embed documents. THIS IS LIKELY AN API KEY OR MODEL NAME ISSUE.'']) (\<lambda>_.
          andThen (logger ERROR [lit ''Error details: '' @ message embedError]) (\<lambda>_.
          andThen (logger ERROR [lit ''Please check your .env file for OPENROUTER_API_KEY (has credits?) and EMBEDDING_MODEL_NAME (correct model?).'']) (\<lambda>_.
          throw (Error (lit ''OpenRouter API call failed: '' @ message embedError)))))))"

text \<open>The statements after the zero-chunk test (lines 192 to 253).\<close>

definition embed_and_store :: "env \<Rightarrow> Document \<Rightarrow> LangChainDocument list \<Rightarrow> ingest_result option io" where
  "embed_and_store e document chunks =
     (let chunksWithMetadata = map (with_metadata document) chunks in
      andThen (logger LOG [lit ''Attempting to embed '' @ to_decimal (length chunksWithMetadata)
                             @ lit '' chunks...'']) (\<lambda>_.
      andThen (embed_step e chunksWithMetadata) (\<lambda>embeddingsResponse.
      andThen (logger LOG [lit ''Attempting to save vectors to Supabase...'']) (\<lambda>_.
      andThen (addVectors e embeddingsResponse chunksWithMetadata) (\<lambda>_.
      andThen (logger LOG [lit ''Successfully embedded and stored '' @ to_decimal (length chunks)
                             @ lit '' chunks into Supabase.'']) (\<lambda>_.
      build_result chunks))))))"

text \<open>
  The body of the outer \<^verbatim>\<open>try\<close> (lines 154 to 253). \<open>None\<close> is the \<^verbatim>\<open>undefined\<close> of the
  bare \<^verbatim>\<open>return\<close> at line 189.
\<close>

definition ingest_body :: "env \<Rightarrow> Document \<Rightarrow> js_string \<Rightarrow> js_string \<Rightarrow> ingest_result option io" where
  "ingest_body e document tempDir tempFilePath =
     andThen (mkdir e tempDir) (\<lambda>_.
     andThen (logger LOG [lit ''Ensured temp directory exists at: '' @ tempDir]) (\<lambda>_.
     andThen (download e (storage_path document)) (\<lambda>buffer.
     andThen (writeFile e tempFilePath buffer) (\<lambda>_.
     andThen (logger LOG [lit ''File successfully written to: '' @ tempFilePath]) (\<lambda>_.
     andThen (PDFLoader_load e tempFilePath) (\<lambda>docs.
     andThen (logger LOG [lit ''File loaded. Total pages/documents: '' @ to_decimal (length docs)]) (\<lambda>_.
     andThen (\<lambda>s. (splitDocuments e 1000 200 docs, s)) (\<lambda>chunks.
     andThen (logger LOG [lit ''Document split into '' @ to_decimal (length chunks) @ lit '' chunks.'']) (\<lambda>_.
     if length chunks = 0 then
       andThen (logger WARN [lit ''No chunks were created. PDF might be empty or unreadable.''])
         (\<lambda>_. returns None)
     else embed_and_store e document chunks)))))))))"

text \<open>The outer \<^verbatim>\<open>catch\<close> (lines 254 to 256).\<close>

definition ingest_catch :: "js_error \<Rightarrow> ingest_result option io" where
  "ingest_catch err =
     andThen (logger ERROR [lit ''Ingestion failed:'', message err])
       (\<lambda>_. throw (Error (lit ''Ingestion process failed.'')))"

text \<open>The \<^verbatim>\<open>finally\<close> block (lines 257 to 267).\<close>

definition cleanup :: "env \<Rightarrow> js_string \<Rightarrow> unit io" where
  "cleanup e tempDir =
     try_catch
       (andThen (rm e tempDir)
          (\<lambda>_. logger LOG [lit ''Cleaned up temp directory: '' @ tempDir]))
       (\<lambda>err. logger WARN [lit ''Could not delete temp directory: '' @ message err])"

definition tempDir_of :: "env \<Rightarrow> js_string" where
  "tempDir_of e = path_join (cwd e) (lit ''temp-uploads'')"

definition tempFilePath_of :: "env \<Rightarrow> Document \<Rightarrow> js_string" where
  "tempFilePath_of e document = path_join (tempDir_of e) (file_name document)"

definition ingestDocument :: "env \<Rightarrow> Document \<Rightarrow> ingest_result option io" where
  "ingestDocument e document =
     andThen (logger LOG [lit ''Starting ingestion for document: '' @ file_name document]) (\<lambda>_.
     try_finally
       (try_catch
          (ingest_body e document (tempDir_of e) (tempFilePath_of e document))
          ingest_catch)
       (cleanup e (tempDir_of e)))"

section \<open>IngestionService.ingestDocument with OpenRouterEmbeddings (unnamed/part_006)\<close>

text \<open>
  The later version of the service: its embedding client is \<^verbatim>\<open>OpenRouterEmbeddings\<close>,
  and embedding and storing are one call of \<^verbatim>\<open>SupabaseVectorStore.fromDocuments\<close>. Its
  definitions carry the suffix \<open>_or\<close>.
\<close>

text \<open>\<^verbatim>\<open>this.embeddings.embedDocuments(texts)\<close> on the remote calls counted in the state.\<close>

definition embedDocuments_io :: "OpenRouterEmbeddings \<Rightarrow> js_string list \<Rightarrow> vector list io" where
  "embedDocuments_io c texts s =
     (case embedDocuments c texts (api_calls s) of (r, n') \<Rightarrow> (r, s\<lparr>api_calls := n'\<rparr>))"

text \<open>
  \<^verbatim>\<open>SupabaseVectorStore.fromDocuments(docs, embeddings, config)\<close> is library code: it
  embeds the page contents with \<^verbatim>\<open>embeddings.embedDocuments\<close> and passes the vectors
  and the documents to \<^verbatim>\<open>addVectors\<close> (the comment at lines 92 and 93 of the source
  says so).
\<close>

definition fromDocuments :: "env \<Rightarrow> OpenRouterEmbeddings \<Rightarrow> LangChainDocument list \<Rightarrow> unit io" where
  "fromDocuments e c docs =
     andThen (embedDocuments_io c (map pageContent docs))
       (\<lambda>vs. addVectors e vs docs)"

text \<open>The body of the \<^verbatim>\<open>try\<close> (lines 49 to 111).\<close>

definition ingest_body_or ::
  "env \<Rightarrow> OpenRouterEmbeddings \<Rightarrow> Document \<Rightarrow> js_string \<Rightarrow> js_string \<Rightarrow> ingest_result option io" where
  "ingest_body_or e c document tempDir tempFilePath =
     andThen (mkdir e tempDir) (\<lambda>_.
     andThen (logger LOG [lit ''Attempting to download from bucket: '' @ [0x0027] @ lit ''documents''
                            @ [0x0027]]) (\<lambda>_.
     andThen (logger LOG [lit ''File path from database: '' @ [0x0027] @ storage_path document
                            @ [0x0027]]) (\<lambda>_.
     andThen (download e (storage_path document)) (\<lambda>buffer.
     andThen (writeFile e tempFilePath buffer) (\<lambda>_.
     andThen (PDFLoader_load e tempFilePath) (\<lambda>docs.
     andThen (logger LOG [lit ''File loaded. Total pages/documents: '' @ to_decimal (length docs)]) (\<lambda>_.
     andThen (\<lambda>s. (splitDocuments e 1000 200 docs, s)) (\<lambda>chunks.
     andThen (logger LOG [lit ''Document split into '' @ to_decimal (length chunks) @ lit '' chunks.'']) (\<lambda>_.
     if length chunks = 0 then
       andThen (logger WARN [lit ''No chunks created. PDF might be empty.''])
         (\<lambda>_. returns None)
     else
       let chunksWithMetadata = map (with_metadata document) chunks in
       andThen (logger LOG [lit ''Attempting to embed and store ''
                              @ to_decimal (length chunksWithMetadata) @ lit '' chunks...'']) (\<lambda>_.
       andThen (fromDocuments e c chunksWithMetadata) (\<lambda>_.
       andThen (logger LOG [lit ''Successfully embedded and stored '' @ to_decimal (length chunks)
                              @ lit '' chunks.'']) (\<lambda>_.
       build_result chunks))))))))))))"

text \<open>The \<^verbatim>\<open>catch\<close> (lines 112 to 116).\<close>

definition ingest_catch_or :: "env \<Rightarrow> js_error \<Rightarrow> ingest_result option io" where
  "ingest_catch_or e err =
     andThen (logger ERROR [lit ''Ingestion failed:'', message err]) (\<lambda>_.
     andThen (logger ERROR [error_stack e err]) (\<lambda>_.
     throw (Error (lit ''Ingestion process failed.''))))"

text \<open>The \<^verbatim>\<open>finally\<close> block (lines 117 to 125) is that of the earlier version.\<close>

definition ingestDocument_or :: "env \<Rightarrow> OpenRouterEmbeddings \<Rightarrow> Document \<Rightarrow> ingest_result option io" where
  "ingestDocument_or e c document =
     andThen (logger LOG [lit ''Starting ingestion for document: '' @ file_name document]) (\<lambda>_.
     try_finally
       (try_catch
          (ingest_body_or e c document (tempDir_of e) (tempFilePath_of e document))
          (ingest_catch_or e))
       (cleanup e (tempDir_of e)))"

section \<open>DocumentsService.uploadAndCreate (documents/documents.service.ts)\<close>

record MulterFile =
  originalname :: js_string
  buffer :: bytes
  mimetype :: js_string

text \<open>
  \<^verbatim>\<open>supabase.storage.from('documents').upload(...)\<close> and the check of \<^verbatim>\<open>uploadError\<close>.
\<close>

definition upload :: "env \<Rightarrow> js_string \<Rightarrow> bytes \<Rightarrow> unit io" where
  "upload e storagePath buf =
     (case storage_upload e storagePath buf of
        Some msg \<Rightarrow> throw (Error (lit ''Storage error: '' @ msg))
      | None \<Rightarrow> returns ())"

text \<open>
  \<^verbatim>\<open>documentsRepository.save\<close>: the row gets its generated key (the next number of the
  table) and its creation date, and is appended to table \<^verbatim>\<open>documents\<close>.
\<close>

definition save :: "env \<Rightarrow> Document \<Rightarrow> Document io" where
  "save e newDocument s =
     (case repository_save e newDocument of
        Some err \<Rightarrow> (Inl err, s)
      | None \<Rightarrow>
          let savedDocument = newDocument\<lparr>id' := Suc (length (documents s)), created_at := date_now e\<rparr>
          in (Inr savedDocument, s\<lparr>documents := documents s @ [savedDocument]\<rparr>))"

text \<open>
  \<^verbatim>\<open>promise.catch(handler)\<close> that is not awaited: the caller goes on whatever the
  outcome; the state is the one reached once the promise has settled.
\<close>

definition detached :: "'a io \<Rightarrow> (js_error \<Rightarrow> unit io) \<Rightarrow> unit io" where
  "detached m h s = (case m s of (Inl err, s') \<Rightarrow> h err s' | (Inr _, s') \<Rightarrow> (Inr (), s'))"

text \<open>
  \<^verbatim>\<open>uploadAndCreate\<close>. \<^verbatim>\<open>documentsRepository.create\<close> leaves the key and the date unset
  (here 0) until the row is saved.
\<close>

definition uploadAndCreate :: "env \<Rightarrow> MulterFile \<Rightarrow> Document io" where
  "uploadAndCreate e file =
     (let storagePath = lit ''uploads/'' @ to_decimal (date_now e) @ lit ''-'' @ originalname file in
      andThen (upload e storagePath (buffer file)) (\<lambda>_.
      let newDocument = \<lparr>id' = 0, file_name = originalname file, storage_path = storagePath,
                          status = lit ''UPLOADED'', created_at = 0\<rparr> in
      andThen (save e newDocument) (\<lambda>savedDocument.
      andThen (detached (ingestDocument e savedDocument)
                 (\<lambda>err. logger CONSOLE [lit ''Ingestion failed for doc '' @ to_decimal (id' savedDocument),
                                          message err]))
        (\<lambda>_. returns savedDocument))))"

section \<open>ChatService.generateResponse (chat/chat.service.ts)\<close>

record SourceDocument =
  source :: "js_value option"
  content :: js_string

record RagResponse =
  answer :: js_string
  sourceDocuments :: "SourceDocument list"

text \<open>
  The collaborators of the chat service: \<open>retriever_invoke i k q\<close> is what the \<open>i\<close>-th
  retrieval of the process returns for the top \<open>k\<close> of query \<open>q\<close> (embedding of the
  query and similarity search in Supabase), \<open>llm_invoke\<close> what the language model answers
  to a prompt. The number of retrievals made so far is the state that is threaded.
\<close>

record chat_env =
  retriever_invoke :: "nat \<Rightarrow> nat \<Rightarrow> js_string \<Rightarrow> js_error + LangChainDocument list"
  llm_invoke :: "js_string \<Rightarrow> js_error + js_string"

text \<open>
  \<^verbatim>\<open>RAG_PROMPT_TEMPLATE\<close>, cut at its two placeholders: the text before
  \<^verbatim>\<open>{context}\<close>, between \<^verbatim>\<open>{context}\<close> and \<^verbatim>\<open>{question}\<close>, and after \<^verbatim>\<open>{question}\<close>, as
  UTF-16 code units.
\<close>

definition RAG_PROMPT_TEMPLATE_head :: js_string where
  "RAG_PROMPT_TEMPLATE_head =
    [0x000A, 0x0020, 0x0020, 0x0020, 0x0020, 0x4F60, 0x662F, 0x4E00, 0x4E2A, 0x4E13,
     0x4E1A, 0x7684, 0x95EE, 0x7B54, 0x52A9, 0x624B, 0x3002, 0x8BF7, 0x4E25, 0x683C,
     0x6839, 0x636E, 0x4E0B, 0x9762, 0x63D0, 0x4F9B, 0x7684, 0x3010, 0x4E0A, 0x4E0B,
     0x6587, 0x4FE1, 0x606F, 0x3011, 0x6765, 0x56DE, 0x7B54, 0x3010, 0x7528, 0x6237,
     0x7684, 0x95EE, 0x9898, 0x3011, 0x3002, 0x000A, 0x0020, 0x0020, 0x0020, 0x0020,
     0x5982, 0x679C, 0x3010, 0x4E0A, 0x4E0B, 0x6587, 0x4FE1, 0x606F, 0x3011, 0x4E2D,
     0x6CA1, 0x6709, 0x63D0, 0x5230, 0x4E0E, 0x95EE, 0x9898, 0x76F8, 0x5173, 0x7684,
     0x5185, 0x5BB9, 0xFF0C, 0x8BF7, 0x56DE, 0x7B54, 0xFF1A, 0x0022, 0x6839, 0x636E,
     0x6211, 0x6240, 0x638C, 0x63E1, 0x7684, 0x6587, 0x6863, 0x4FE1, 0x606F, 0xFF0C,
     0x6211, 0x65E0, 0x6CD5, 0x56DE, 0x7B54, 0x60A8, 0x7684, 0x95EE, 0x9898, 0x3002,
     0x0022, 0x000A, 0x000A, 0x0020, 0x0020, 0x0020, 0x0020, 0x3010, 0x4E0A, 0x4E0B,
     0x6587, 0x4FE1, 0x606F, 0x3011, 0xFF1A, 0x000A, 0x0020, 0x0020, 0x0020, 0x0020]"

definition RAG_PROMPT_TEMPLATE_middle :: js_string where
  "RAG_PROMPT_TEMPLATE_middle =
    [0x000A, 0x000A, 0x0020, 0x0020, 0x0020, 0x0020, 0x3010, 0x7528, 0x6237, 0x7684,
     0x95EE, 0x9898, 0x3011, 0xFF1A, 0x000A, 0x0020, 0x0020, 0x0020, 0x0020]"

definition RAG_PROMPT_TEMPLATE_tail :: js_string where
  "RAG_PROMPT_TEMPLATE_tail =
    [0x000A, 0x0020, 0x0020, 0x0020, 0x0020]"

definition prompt_format :: "js_string \<Rightarrow> js_string \<Rightarrow> js_string" where
  "prompt_format context question =
     RAG_PROMPT_TEMPLATE_head @ context @ RAG_PROMPT_TEMPLATE_middle @ question
       @ RAG_PROMPT_TEMPLATE_tail"

text \<open>\<^verbatim>\<open>formatDocumentsAsString\<close> (utils): the page contents joined by two line feeds.\<close>

definition formatDocumentsAsString :: "LangChainDocument list \<Rightarrow> js_string" where
  "formatDocumentsAsString docs = join [0x000A, 0x000A] (map pageContent docs)"

text \<open>\<^verbatim>\<open>retriever.invoke(query)\<close> of \<^verbatim>\<open>this.vectorStore.asRetriever(k)\<close>: one retrieval.\<close>

definition retriever :: "chat_env \<Rightarrow> nat \<Rightarrow> js_string \<Rightarrow> nat \<Rightarrow> (js_error + LangChainDocument list) \<times> nat" where
  "retriever e k query n = (retriever_invoke e n k query, Suc n)"

text \<open>
  \<^verbatim>\<open>ragChain.invoke(query)\<close>: the retriever piped into \<^verbatim>\<open>formatDocumentsAsString\<close> gives
  the context, the query is passed through as the question, the prompt is formatted and
  sent to the model, and the output parser returns the text of the answer.
\<close>

definition ragChain_invoke :: "chat_env \<Rightarrow> js_string \<Rightarrow> nat \<Rightarrow> (js_error + js_string) \<times> nat" where
  "ragChain_invoke e query n =
     (case retriever e 4 query n of
        (Inl err, n') \<Rightarrow> (Inl err, n')
      | (Inr docs, n') \<Rightarrow>
          (llm_invoke e (prompt_format (formatDocumentsAsString docs) query), n'))"

text \<open>The callback of \<^verbatim>\<open>sourceDocuments.map\<close> (lines 115 to 118).\<close>

definition to_source :: "LangChainDocument \<Rightarrow> SourceDocument" where
  "to_source doc =
     \<lparr>source = map_of (metadata doc) ''source'',
      content = substring0 (pageContent doc) 200 @ lit ''...''\<rparr>"

definition generateResponse :: "chat_env \<Rightarrow> js_string \<Rightarrow> nat \<Rightarrow> (js_error + RagResponse) \<times> nat" where
  "generateResponse e query n =
     (case ragChain_invoke e query n of
        (Inl err, n') \<Rightarrow> (Inl err, n')
      | (Inr answer_text, n') \<Rightarrow>
          (case retriever e 4 query n' of
             (Inl err, n'') \<Rightarrow> (Inl err, n'')
           | (Inr sourceDocs, n'') \<Rightarrow>
               (Inr \<lparr>answer = answer_text, sourceDocuments = map to_source sourceDocs\<rparr>, n'')))"

section \<open>Concrete runs\<close>

text \<open>
  A remote API that answers every call with one embedding, made of the number of the
  call and the length of the text.
\<close>

definition demo_client :: OpenRouterEmbeddings where
  "demo_client =
     \<lparr>modelName = lit ''m'',
      generate = (\<lambda>k m t. Inr \<lparr>data = Some [\<lparr>object = lit ''embedding'',
                                                embedding = [real k, real (length t)],
                                                index = 0\<rparr>],
                                  model = m\<rparr>)\<rparr>"

text \<open>
  Collaborators that all succeed: the stored file parses into one page, the splitter
  returns the pages as chunks, the embedding of a text is its length.
\<close>

definition ok_env :: env where
  "ok_env =
     \<lparr>cwd = lit ''/app'',
      fs_mkdir = (\<lambda>_. None),
      fs_writeFile = (\<lambda>_ _. None),
      fs_rm = (\<lambda>_. None),
      storage_download = (\<lambda>_. Inr [0x25, 0x50, 0x44, 0x46]),
      storage_upload = (\<lambda>_ _. None),
      pdf_parse = (\<lambda>_. Inr [\<lparr>pageContent = lit ''hello world'',
                               metadata = [(''loc'', Obj [(''pageNumber'', Num 1)])]\<rparr>]),
      splitDocuments = (\<lambda>_ _ docs. Inr docs),
      openai_embedDocuments = (\<lambda>texts. Inr (map (\<lambda>t. [real (length t)]) texts)),
      vectors_insert = (\<lambda>_. None),
      date_now = 1700000000000,
      repository_save = (\<lambda>_. None),
      error_stack = (\<lambda>err. lit ''Error: '' @ message err)\<rparr>"

definition demo_document :: Document where
  "demo_document =
     \<lparr>id' = 1, file_name = lit ''handbook.pdf'',
      storage_path = lit ''uploads/1700000000000-handbook.pdf'',
      status = lit ''UPLOADED'', created_at = 1700000000000\<rparr>"

text \<open>The process after the upload of the document: an empty disk, no vectors yet.\<close>

definition demo_world :: world where
  "demo_world =
     \<lparr>fs = (\<lambda>_. None), vectors = [], documents = [demo_document], logs = [], api_calls = 0\<rparr>"

text \<open>The embedding client rejects with a rate-limit error.\<close>

definition embed_fail_env :: env where
  "embed_fail_env = ok_env\<lparr>openai_embedDocuments := (\<lambda>_. Inl (Error (lit ''429'')))\<rparr>"

text \<open>The splitter returns no chunk (a PDF without text).\<close>

definition no_chunks_env :: env where
  "no_chunks_env = ok_env\<lparr>splitDocuments := (\<lambda>_ _ _. Inr [])\<rparr>"

text \<open>The stored file is a text file, which the PDF parser rejects.\<close>

definition text_file_env :: env where
  "text_file_env =
     ok_env\<lparr>storage_download := (\<lambda>_. Inr [0x68, 0x69]),
            pdf_parse := (\<lambda>content. if take 4 content = [0x25, 0x50, 0x44, 0x46]
                                     then Inr [\<lparr>pageContent = lit ''hello world'', metadata = []\<rparr>]
                                     else Inl (Error (lit ''Invalid PDF structure.'')))\<rparr>"

definition text_document :: Document where
  "text_document =
     \<lparr>id' = 2, file_name = lit ''notes.txt'',
      storage_path = lit ''uploads/1700000000001-notes.txt'',
      status = lit ''UPLOADED'', created_at = 1700000000001\<rparr>"

text \<open>A document whose file name leads out of the temporary directory.\<close>

definition evil_document :: Document where
  "evil_document =
     \<lparr>id' = 3, file_name = lit ''../evil.pdf'',
      storage_path = lit ''uploads/1700000000002-evil.pdf'',
      status = lit ''UPLOADED'', created_at = 1700000000002\<rparr>"

text \<open>
  A retriever that finds the same chunk twice (the document was ingested twice), and a
  model that answers with a fixed text.
\<close>

definition demo_chunk :: LangChainDocument where
  "demo_chunk =
     \<lparr>pageContent = lit ''Refunds are possible within 30 days.'',
      metadata = [(''documentId'', Num 1), (''source'', Str (lit ''handbook.pdf''))]\<rparr>"

definition demo_chat_env :: chat_env where
  "demo_chat_env =
     \<lparr>retriever_invoke = (\<lambda>_ _ _. Inr [demo_chunk, demo_chunk]),
      llm_invoke = (\<lambda>_. Inr (lit ''Within 30 days.''))\<rparr>"

text \<open>
  A second chunk, and a chat service whose retriever always finds the two chunks and
  whose model answers with the prompt it was given.
\<close>

definition faq_chunk :: LangChainDocument where
  "faq_chunk =
     \<lparr>pageContent = lit ''Shipping takes 5 days.'',
      metadata = [(''documentId'', Num 2), (''source'', Str (lit ''faq.pdf''))]\<rparr>"

definition echo_chat_env :: chat_env where
  "echo_chat_env =
     \<lparr>retriever_invoke = (\<lambda>_ _ _. Inr [demo_chunk, faq_chunk]),
      llm_invoke = (\<lambda>prompt. Inr prompt)\<rparr>"

definition echo_response :: RagResponse where
  "echo_response =
     \<lparr>answer = RAG_PROMPT_TEMPLATE_head @ lit ''Refunds are possible within 30 days.''
                @ [0x000A, 0x000A] @ lit ''Shipping takes 5 days.''
                @ RAG_PROMPT_TEMPLATE_middle @ lit ''refunds?'' @ RAG_PROMPT_TEMPLATE_tail,
      sourceDocuments =
        [\<lparr>source = Some (Str (lit ''handbook.pdf'')),
          content = lit ''Refunds are possible within 30 days....''\<rparr>,
         \<lparr>source = Some (Str (lit ''faq.pdf'')),
          content = lit ''Shipping takes 5 days....''\<rparr>]\<rparr>"

text \<open>
  A chunk whose text is 200 times \<^verbatim>\<open>a\<close> and one more code unit. The first retrieval of
  the drifting service finds the chunk that ends in \<^verbatim>\<open>X\<close>, every later one the chunk
  that ends in \<^verbatim>\<open>Y\<close>; its model answers with the prompt it was given.
\<close>

definition long_chunk :: "code_unit \<Rightarrow> LangChainDocument" where
  "long_chunk u =
     \<lparr>pageContent = replicate 200 0x0061 @ [u],
      metadata = [(''documentId'', Num 1), (''source'', Str (lit ''handbook.pdf''))]\<rparr>"

definition drifting_chat_env :: chat_env where
  "drifting_chat_env =
     \<lparr>retriever_invoke = (\<lambda>i _ _. Inr [long_chunk (if i = 0 then 0x0058 else 0x0059)]),
      llm_invoke = (\<lambda>prompt. Inr prompt)\<rparr>"

definition drifting_response :: RagResponse where
  "drifting_response =
     \<lparr>answer = RAG_PROMPT_TEMPLATE_head @ replicate 200 0x0061 @ lit ''X''
                @ RAG_PROMPT_TEMPLATE_middle @ lit ''refunds?'' @ RAG_PROMPT_TEMPLATE_tail,
      sourceDocuments =
        [\<lparr>source = Some (Str (lit ''handbook.pdf'')),
          content = replicate 200 0x0061 @ lit ''...''\<rparr>]\<rparr>"

text \<open>A chat service whose model call is rejected.\<close>

definition no_model_chat_env :: chat_env where
  "no_model_chat_env =
     \<lparr>retriever_invoke = (\<lambda>_ _ _. Inr [demo_chunk]),
      llm_invoke = (\<lambda>_. Inl (Error (lit ''503'')))\<rparr>"

text \<open>An uploaded file, and the row that \<^verbatim>\<open>uploadAndCreate\<close> saves for it.\<close>

definition demo_file :: MulterFile where
  "demo_file =
     \<lparr>originalname = lit ''guide.pdf'', buffer = [0x25, 0x50, 0x44, 0x46],
      mimetype = lit ''application/pdf''\<rparr>"

definition demo_saved :: Document where
  "demo_saved =
     \<lparr>id' = 2, file_name = lit ''guide.pdf'',
      storage_path = lit ''uploads/'' @ to_decimal 1700000000000 @ lit ''-'' @ lit ''guide.pdf'',
      status = lit ''UPLOADED'', created_at = 1700000000000\<rparr>"

text \<open>The page of \<open>ok_env\<close> and the result of its ingestion.\<close>

definition demo_page :: LangChainDocument where
  "demo_page =
     \<lparr>pageContent = lit ''hello world'', metadata = [(''loc'', Obj [(''pageNumber'', Num 1)])]\<rparr>"

definition demo_result :: ingest_result where
  "demo_result = \<lparr>chunkCount = 1, firstChunkText = lit ''hello world...''\<rparr>"

text \<open>The response to a query with \<open>demo_chat_env\<close>.\<close>

definition demo_response :: RagResponse where
  "demo_response =
     \<lparr>answer = lit ''Within 30 days.'',
      sourceDocuments =
        [\<lparr>source = Some (Str (lit ''handbook.pdf'')),
          content = lit ''Refunds are possible within 30 days....''\<rparr>,
         \<lparr>source = Some (Str (lit ''handbook.pdf'')),
          content = lit ''Refunds are possible within 30 days....''\<rparr>]\<rparr>"

section \<open>Embeddings: one vector per text\<close>

lemma embedQuery_calls: "snd (embedQuery c t n) = Suc n"
  by (simp add: embedQuery_def)

lemma embed_task_calls: "snd (embed_task c t n) = Suc n"
  using embedQuery_calls [of c t n]
  by (cases "embedQuery c t n") (auto simp: embed_task_def split: sum.splits)

lemma embed_task_Inr: "fst (embed_task c t n) = Inr v \<longleftrightarrow> fst (embedQuery c t n) = Inr v"
  by (cases "embedQuery c t n") (auto simp: embed_task_def split: sum.splits)

lemma run_tasks_Cons:
  "run_tasks c (t # ts) n =
     (fst (embed_task c t n) # fst (run_tasks c ts (Suc n)), snd (run_tasks c ts (Suc n)))"
  using embed_task_calls [of c t n]
  by (cases "embed_task c t n"; cases "run_tasks c ts (Suc n)") simp

lemma run_tasks_calls: "snd (run_tasks c ts n) = n + length ts"
  by (induction ts arbitrary: n) (simp_all add: run_tasks_Cons del: run_tasks.simps(2))

lemma run_tasks_length: "length (fst (run_tasks c ts n)) = length ts"
  by (induction ts arbitrary: n) (simp_all add: run_tasks_Cons del: run_tasks.simps(2))

lemma run_tasks_nth:
  "i < length ts \<Longrightarrow> fst (run_tasks c ts n) ! i = fst (embed_task c (ts ! i) (n + i))"
proof (induction ts arbitrary: n i)
  case Nil
  then show ?case by simp
next
  case (Cons t ts)
  show ?case
  proof (cases i)
    case 0
    then show ?thesis by (simp add: run_tasks_Cons del: run_tasks.simps(2))
  next
    case (Suc j)
    with Cons.prems have "j < length ts" by simp
    from Cons.IH [OF this, of "Suc n"] Suc
    show ?thesis by (simp add: run_tasks_Cons del: run_tasks.simps(2))
  qed
qed

lemma promise_all_values: "promise_all (map Inr vs) = Inr vs"
  by (induction vs) simp_all

lemma promise_all_Inr_D: "promise_all rs = Inr vs \<Longrightarrow> rs = map Inr vs"
proof (induction rs arbitrary: vs)
  case Nil
  then show ?case by simp
next
  case (Cons r rs)
  show ?case
  proof (cases r)
    case (Inl e)
    with Cons.prems show ?thesis by simp
  next
    case (Inr v)
    with Cons.prems obtain ws where ws: "promise_all rs = Inr ws" and vs: "vs = v # ws"
      by (auto split: sum.splits)
    from Cons.IH [OF ws] vs Inr show ?thesis by simp
  qed
qed

lemma promise_all_Inr: "promise_all rs = Inr vs \<longleftrightarrow> rs = map Inr vs"
  using promise_all_values promise_all_Inr_D by blast

text \<open>
  C3. \<^verbatim>\<open>embedDocuments\<close> on the empty list returns the empty list and makes no remote
  call. On any list it makes one remote call per text, and it returns \<open>vs\<close> exactly when
  \<open>vs\<close> has one vector per text and the vector at each position is the one that
  \<^verbatim>\<open>embedQuery\<close> returned for the text at that position (the call for the \<open>i\<close>-th text is
  the \<open>i\<close>-th call made).
\<close>

theorem embedDocuments_one_vector_per_text:
  "embedDocuments c [] n = (Inr [], n) \<and>
   snd (embedDocuments c texts n) = n + length texts \<and>
   (fst (embedDocuments c texts n) = Inr vs \<longleftrightarrow>
      length vs = length texts \<and>
      (\<forall>i < length texts. fst (embedQuery c (texts ! i) (n + i)) = Inr (vs ! i)))"
proof (intro conjI)
  show "embedDocuments c [] n = (Inr [], n)"
    by (simp add: embedDocuments_def)
  show "snd (embedDocuments c texts n) = n + length texts"
    using run_tasks_calls [of c texts n]
    by (cases "run_tasks c texts n") (simp add: embedDocuments_def)
  have "fst (embedDocuments c texts n) = Inr vs \<longleftrightarrow> fst (run_tasks c texts n) = map Inr vs"
    by (cases "run_tasks c texts n") (simp add: embedDocuments_def promise_all_Inr)
  also have "\<dots> \<longleftrightarrow> length vs = length texts \<and>
      (\<forall>i < length texts. fst (embed_task c (texts ! i) (n + i)) = Inr (vs ! i))"
    using run_tasks_length [of c texts n] run_tasks_nth [of _ texts c n]
    by (auto simp: list_eq_iff_nth_eq)
  finally show "fst (embedDocuments c texts n) = Inr vs \<longleftrightarrow>
      length vs = length texts \<and>
      (\<forall>i < length texts. fst (embedQuery c (texts ! i) (n + i)) = Inr (vs ! i))"
    by (simp add: embed_task_Inr)
qed

theorem embedDocuments_one_vector_per_text_witness:
  "fst (embedDocuments demo_client [lit ''a'', lit ''bc''] 0) = Inr [[0, 1], [1, 2]] \<and>
   snd (embedDocuments demo_client [lit ''a'', lit ''bc''] 0) = 2 \<and>
   embedDocuments demo_client [] 0 = (Inr [], 0)"
proof -
  have each: "\<forall>i < length [lit ''a'', lit ''bc''].
      fst (embedQuery demo_client ([lit ''a'', lit ''bc''] ! i) (0 + i)) = Inr ([[0, 1], [1, 2]] ! i)"
    by (simp add: embedQuery_def demo_client_def lit_def less_Suc_eq)
  from each embedDocuments_one_vector_per_text
         [of demo_client 0 "[lit ''a'', lit ''bc'']" "[[0, 1], [1, 2]]"]
  show ?thesis by simp
qed

section \<open>Ingestion: what a run returns and what it leaves\<close>

lemmas io_defs = andThen_def try_catch_def try_finally_def returns_def throw_def logger_def

lemmas step_defs = mkdir_def writeFile_def rm_def download_def PDFLoader_load_def addVectors_def
  build_result_def first_chunk_text_def

lemmas body_defs = embed_step_def embed_and_store_def ingest_body_def

lemmas all_splits = option.splits sum.splits list.splits fs_node.splits prod.splits

lemma embedDocuments_io_unfold:
  "embedDocuments_io c texts s =
     (fst (embedDocuments c texts (api_calls s)),
      s\<lparr>api_calls := snd (embedDocuments c texts (api_calls s))\<rparr>)"
  by (simp add: embedDocuments_io_def split: prod.splits)

lemmas body_or_defs = embedDocuments_io_unfold fromDocuments_def ingest_body_or_def

subsection \<open>The finally block\<close>

lemma fst_cleanup: "fst (cleanup e dir s) = Inr ()"
  by (simp add: cleanup_def io_defs rm_def split: all_splits)

lemma fs_cleanup:
  "fs_rm e dir = None \<Longrightarrow>
     fs (snd (cleanup e dir s)) p = (if inside dir p then None else fs s p)"
  by (simp add: cleanup_def io_defs rm_def)

lemma vectors_cleanup: "vectors (snd (cleanup e dir s)) = vectors s"
  by (simp add: cleanup_def io_defs rm_def split: all_splits)

lemma documents_cleanup: "documents (snd (cleanup e dir s)) = documents s"
  by (simp add: cleanup_def io_defs rm_def split: all_splits)

lemma logs_cleanup: "set (logs s) \<subseteq> set (logs (snd (cleanup e dir s)))"
  by (auto simp add: cleanup_def io_defs rm_def split: all_splits)

lemma try_finally_cleanup:
  "try_finally m (cleanup e dir) s = (fst (m s), snd (cleanup e dir (snd (m s))))"
  using fst_cleanup [of e dir "snd (m s)"]
  by (cases "m s"; cases "cleanup e dir (snd (m s))") (auto simp: try_finally_def)

subsection \<open>The catch\<close>

lemma fst_ingest_catch:
  "fst (try_catch m ingest_catch s) =
     (case fst (m s) of
        Inl err \<Rightarrow> Inl (Error (lit ''Ingestion process failed.''))
      | Inr x \<Rightarrow> Inr x)"
  by (cases "m s") (auto simp: ingest_catch_def io_defs split: sum.splits)

lemma fst_ingest_catch_or:
  "fst (try_catch m (ingest_catch_or e) s) =
     (case fst (m s) of
        Inl err \<Rightarrow> Inl (Error (lit ''Ingestion process failed.''))
      | Inr x \<Rightarrow> Inr x)"
  by (cases "m s") (auto simp: ingest_catch_or_def io_defs split: sum.splits)

lemma documents_ingest_catch:
  "documents (snd (try_catch m ingest_catch s)) = documents (snd (m s))"
  by (cases "m s") (auto simp: ingest_catch_def io_defs split: sum.splits)

lemma documents_ingest_catch_or:
  "documents (snd (try_catch m (ingest_catch_or e) s)) = documents (snd (m s))"
  by (cases "m s") (auto simp: ingest_catch_or_def io_defs split: sum.splits)

lemma vectors_ingest_catch:
  "vectors (snd (try_catch m ingest_catch s)) = vectors (snd (m s))"
  by (cases "m s") (auto simp: ingest_catch_def io_defs split: sum.splits)

subsection \<open>The whole function\<close>

lemma ingestDocument_unfold:
  "ingestDocument e d s =
     (fst (try_catch (ingest_body e d (tempDir_of e) (tempFilePath_of e d)) ingest_catch
             (snd (logger LOG [lit ''Starting ingestion for document: '' @ file_name d] s))),
      snd (cleanup e (tempDir_of e)
        (snd (try_catch (ingest_body e d (tempDir_of e) (tempFilePath_of e d)) ingest_catch
                (snd (logger LOG [lit ''Starting ingestion for document: '' @ file_name d] s))))))"
  by (simp add: ingestDocument_def andThen_def logger_def try_finally_cleanup)

lemma ingestDocument_or_unfold:
  "ingestDocument_or e c d s =
     (fst (try_catch (ingest_body_or e c d (tempDir_of e) (tempFilePath_of e d)) (ingest_catch_or e)
             (snd (logger LOG [lit ''Starting ingestion for document: '' @ file_name d] s))),
      snd (cleanup e (tempDir_of e)
        (snd (try_catch (ingest_body_or e c d (tempDir_of e) (tempFilePath_of e d)) (ingest_catch_or e)
                (snd (logger LOG [lit ''Starting ingestion for document: '' @ file_name d] s))))))"
  by (simp add: ingestDocument_or_def andThen_def logger_def try_finally_cleanup)

lemma pageContent_with_metadata [simp]: "pageContent (with_metadata d c) = pageContent c"
  by (simp add: with_metadata_def)

lemma pageContent_comp_with_metadata [simp]: "pageContent \<circ> with_metadata d = pageContent"
  by (rule ext) simp

text \<open>The outcome of the \<^verbatim>\<open>try\<close> body, read off the answers of the collaborators.\<close>

lemma fst_body:
  "fst (ingest_body e d (tempDir_of e) (tempFilePath_of e d) s) =
   (case fs_mkdir e (tempDir_of e) of Some err \<Rightarrow> Inl err | None \<Rightarrow>
    (case storage_download e (storage_path d) of
      Inl msg \<Rightarrow> Inl (Error (lit ''Supabase download error: '' @ msg))
    | Inr buf \<Rightarrow>
    (case fs_writeFile e (tempFilePath_of e d) buf of Some err \<Rightarrow> Inl err | None \<Rightarrow>
    (case pdf_parse e buf of Inl err \<Rightarrow> Inl err | Inr docs \<Rightarrow>
    (case splitDocuments e 1000 200 docs of Inl err \<Rightarrow> Inl err | Inr chunks \<Rightarrow>
    if chunks = [] then Inr None else
    (case openai_embedDocuments e (map pageContent chunks) of
      Inl cause \<Rightarrow> Inl (Error (lit ''OpenRouter API call failed: '' @ message cause))
    | Inr vs \<Rightarrow>
    if length vs \<noteq> length chunks then Inl (Error (lit ''LengthMismatch'')) else
    (case vectors_insert e
            (map (\<lambda>(v, c). \<lparr>row_content = pageContent c, row_metadata = metadata c,
                             row_embedding = v\<rparr>) (zip vs (map (with_metadata d) chunks))) of
      Some err \<Rightarrow> Inl err
    | None \<Rightarrow> Inr (Some \<lparr>chunkCount = length chunks,
                         firstChunkText = substring0 (pageContent (hd chunks)) 200 @ lit ''...''\<rparr>))))))))"
  by (simp add: io_defs step_defs body_defs Let_def split: all_splits)

lemma fst_body_or:
  "fst (ingest_body_or e c d (tempDir_of e) (tempFilePath_of e d) s) =
   (case fs_mkdir e (tempDir_of e) of Some err \<Rightarrow> Inl err | None \<Rightarrow>
    (case storage_download e (storage_path d) of
      Inl msg \<Rightarrow> Inl (Error (lit ''Supabase download error: '' @ msg))
    | Inr buf \<Rightarrow>
    (case fs_writeFile e (tempFilePath_of e d) buf of Some err \<Rightarrow> Inl err | None \<Rightarrow>
    (case pdf_parse e buf of Inl err \<Rightarrow> Inl err | Inr docs \<Rightarrow>
    (case splitDocuments e 1000 200 docs of Inl err \<Rightarrow> Inl err | Inr chunks \<Rightarrow>
    if chunks = [] then Inr None else
    (case fst (embedDocuments c (map pageContent chunks) (api_calls s)) of
      Inl err \<Rightarrow> Inl err
    | Inr vs \<Rightarrow>
    if length vs \<noteq> length chunks then Inl (Error (lit ''LengthMismatch'')) else
    (case vectors_insert e
            (map (\<lambda>(v, c). \<lparr>row_content = pageContent c, row_metadata = metadata c,
                             row_embedding = v\<rparr>) (zip vs (map (with_metadata d) chunks))) of
      Some err \<Rightarrow> Inl err
    | None \<Rightarrow> Inr (Some \<lparr>chunkCount = length chunks,
                         firstChunkText = substring0 (pageContent (hd chunks)) 200 @ lit ''...''\<rparr>))))))))"
  by (simp add: io_defs step_defs body_or_defs Let_def split: all_splits)

lemma fst_ingestDocument:
  "fst (ingestDocument e d s) =
     (case fst (ingest_body e d (tempDir_of e) (tempFilePath_of e d)
                 (snd (logger LOG [lit ''Starting ingestion for document: '' @ file_name d] s))) of
        Inl err \<Rightarrow> Inl (Error (lit ''Ingestion process failed.''))
      | Inr x \<Rightarrow> Inr x)"
  by (simp add: ingestDocument_unfold fst_ingest_catch)

lemma fst_ingestDocument_or:
  "fst (ingestDocument_or e c d s) =
     (case fst (ingest_body_or e c d (tempDir_of e) (tempFilePath_of e d)
                 (snd (logger LOG [lit ''Starting ingestion for document: '' @ file_name d] s))) of
        Inl err \<Rightarrow> Inl (Error (lit ''Ingestion process failed.''))
      | Inr x \<Rightarrow> Inr x)"
  by (simp add: ingestDocument_or_unfold fst_ingest_catch_or)

lemma documents_body: "documents (snd (ingest_body e d dir path s)) = documents s"
  by (simp add: io_defs step_defs body_defs Let_def split: all_splits)

lemma documents_body_or: "documents (snd (ingest_body_or e c d dir path s)) = documents s"
  by (simp add: io_defs step_defs body_or_defs Let_def split: all_splits)

lemma documents_ingestDocument: "documents (snd (ingestDocument e d s)) = documents s"
  by (simp add: ingestDocument_unfold documents_cleanup documents_ingest_catch documents_body
      logger_def)

lemma documents_ingestDocument_or: "documents (snd (ingestDocument_or e c d s)) = documents s"
  by (simp add: ingestDocument_or_unfold documents_cleanup documents_ingest_catch_or
      documents_body_or logger_def)

lemma documents_uploadAndCreate:
  assumes "fst (uploadAndCreate e file s) = Inr saved"
  shows "status saved = lit ''UPLOADED'' \<and>
         documents (snd (uploadAndCreate e file s)) = documents s @ [saved]"
proof -
  let ?s' = "s\<lparr>documents := documents s @ [saved]\<rparr>"
  have "documents (snd (ingestDocument e saved ?s')) = documents ?s'"
    by (rule documents_ingestDocument)
  with assms show ?thesis
    by (cases "ingestDocument e saved ?s'")
       (auto simp: uploadAndCreate_def upload_def save_def detached_def io_defs Let_def
          split: option.splits sum.splits prod.splits)
qed

text \<open>
  C1, as the code has it. \<^verbatim>\<open>ingestDocument\<close>, in both versions, leaves table
  \<^verbatim>\<open>documents\<close> as it found it, on every path; so the status of a document is after the
  run what it was before. \<^verbatim>\<open>uploadAndCreate\<close> saves the document with status
  \<^verbatim>\<open>UPLOADED\<close>, and once the ingestion it started has settled, failed or not, the saved
  row is still the last row of the table, unchanged.
\<close>

theorem ingestDocument_keeps_status:
  "documents (snd (ingestDocument e d s)) = documents s \<and>
   documents (snd (ingestDocument_or e c d s)) = documents s \<and>
   (fst (uploadAndCreate e file s) = Inr saved \<longrightarrow>
      status saved = lit ''UPLOADED'' \<and>
      documents (snd (uploadAndCreate e file s)) = documents s @ [saved])"
  using documents_ingestDocument documents_ingestDocument_or documents_uploadAndCreate
  by blast

lemma fst_uploadAndCreate:
  "fst (uploadAndCreate e file s) =
     (case storage_upload e (lit ''uploads/'' @ to_decimal (date_now e) @ lit ''-'' @ originalname file)
             (buffer file) of
        Some msg \<Rightarrow> Inl (Error (lit ''Storage error: '' @ msg))
      | None \<Rightarrow>
        (case repository_save e
                \<lparr>id' = 0, file_name = originalname file,
                 storage_path = lit ''uploads/'' @ to_decimal (date_now e) @ lit ''-'' @ originalname file,
                 status = lit ''UPLOADED'', created_at = 0\<rparr> of
           Some err \<Rightarrow> Inl err
         | None \<Rightarrow>
             Inr \<lparr>id' = Suc (length (documents s)), file_name = originalname file,
                  storage_path = lit ''uploads/'' @ to_decimal (date_now e) @ lit ''-'' @ originalname file,
                  status = lit ''UPLOADED'', created_at = date_now e\<rparr>))"
  by (simp add: uploadAndCreate_def upload_def save_def detached_def io_defs Let_def
      split: option.splits sum.splits prod.splits)

theorem ingestDocument_keeps_status_witness:
  "fst (uploadAndCreate ok_env demo_file demo_world) = Inr demo_saved \<and>
   status demo_saved = lit ''UPLOADED'' \<and>
   documents (snd (uploadAndCreate ok_env demo_file demo_world)) = [demo_document, demo_saved]"
proof -
  have run: "fst (uploadAndCreate ok_env demo_file demo_world) = Inr demo_saved"
    by (simp add: fst_uploadAndCreate ok_env_def demo_file_def demo_world_def demo_saved_def)
  with ingestDocument_keeps_status [of ok_env demo_document demo_world demo_client demo_file demo_saved]
  show ?thesis by (simp add: demo_world_def)
qed

text \<open>
  C1, as the claim states it, fails. A run whose embedding call is rejected fails, and
  the status of the document is still \<^verbatim>\<open>UPLOADED\<close>, not \<^verbatim>\<open>FAILED\<close>; a run that stores its
  vector returns its result, and the status is still \<^verbatim>\<open>UPLOADED\<close>, not \<^verbatim>\<open>DONE\<close>.
\<close>

theorem status_never_set_counterexample:
  "fst (ingestDocument embed_fail_env demo_document demo_world)
     = Inl (Error (lit ''Ingestion process failed.'')) \<and>
   map status (documents (snd (ingestDocument embed_fail_env demo_document demo_world)))
     = [lit ''UPLOADED''] \<and>
   lit ''UPLOADED'' \<noteq> lit ''FAILED'' \<and>
   fst (ingestDocument ok_env demo_document demo_world)
     = Inr (Some \<lparr>chunkCount = 1, firstChunkText = lit ''hello world...''\<rparr>) \<and>
   length (vectors (snd (ingestDocument ok_env demo_document demo_world))) = 1 \<and>
   map status (documents (snd (ingestDocument ok_env demo_document demo_world)))
     = [lit ''UPLOADED''] \<and>
   lit ''UPLOADED'' \<noteq> lit ''DONE''"
proof (intro conjI)
  show "fst (ingestDocument embed_fail_env demo_document demo_world)
          = Inl (Error (lit ''Ingestion process failed.''))"
    by (simp add: fst_ingestDocument fst_body embed_fail_env_def ok_env_def)
  show "fst (ingestDocument ok_env demo_document demo_world)
          = Inr (Some \<lparr>chunkCount = 1, firstChunkText = lit ''hello world...''\<rparr>)"
    by (simp add: fst_ingestDocument fst_body ok_env_def substring0_def lit_def)
  show "map status (documents (snd (ingestDocument embed_fail_env demo_document demo_world)))
          = [lit ''UPLOADED'']"
    by (simp add: documents_ingestDocument demo_world_def demo_document_def)
  show "map status (documents (snd (ingestDocument ok_env demo_document demo_world)))
          = [lit ''UPLOADED'']"
    by (simp add: documents_ingestDocument demo_world_def demo_document_def)
  show "length (vectors (snd (ingestDocument ok_env demo_document demo_world))) = 1"
    by (simp add: ingestDocument_unfold vectors_cleanup vectors_ingest_catch
        io_defs step_defs body_defs Let_def ok_env_def demo_world_def tempDir_of_def
        tempFilePath_of_def)
  show "lit ''UPLOADED'' \<noteq> lit ''FAILED''"
    by (simp add: lit_def)
  show "lit ''UPLOADED'' \<noteq> lit ''DONE''"
    by (simp add: lit_def)
qed

subsection \<open>Failure of the embedding call\<close>

lemma vectors_body_failed:
  "fst (ingest_body e d dir path s) = Inl err \<Longrightarrow>
     vectors (snd (ingest_body e d dir path s)) = vectors s"
  by (auto simp: io_defs step_defs body_defs Let_def split: all_splits if_splits)

lemma vectors_ingestDocument_failed:
  assumes "fst (ingestDocument e d s) = Inl err"
  shows "vectors (snd (ingestDocument e d s)) = vectors s"
proof -
  let ?s1 = "snd (logger LOG [lit ''Starting ingestion for document: '' @ file_name d] s)"
  from assms obtain err' where
    "fst (ingest_body e d (tempDir_of e) (tempFilePath_of e d) ?s1) = Inl err'"
    by (auto simp: fst_ingestDocument split: sum.splits)
  then have "vectors (snd (ingest_body e d (tempDir_of e) (tempFilePath_of e d) ?s1)) = vectors ?s1"
    by (rule vectors_body_failed)
  then show ?thesis
    by (simp add: ingestDocument_unfold vectors_cleanup vectors_ingest_catch logger_def)
qed

lemma logs_body_embed_failed:
  assumes "fs_mkdir e dir = None"
      and "storage_download e (storage_path d) = Inr buf"
      and "fs_writeFile e path buf = None"
      and "pdf_parse e buf = Inr docs"
      and "splitDocuments e 1000 200 docs = Inr chunks"
      and "chunks \<noteq> []"
      and "openai_embedDocuments e (map pageContent chunks) = Inl cause"
  shows "(ERROR, [lit ''Ingestion failed:'', lit ''OpenRouter API call failed: '' @ message cause])
           \<in> set (logs (snd (try_catch (ingest_body e d dir path) ingest_catch s)))"
  using assms
  by (simp add: io_defs step_defs body_defs ingest_catch_def Let_def)

text \<open>
  C2, as the code has it. When the run reaches the embedding call and the call is
  rejected with \<open>cause\<close>, the run stores no vector and rejects with the fixed error
  \<^verbatim>\<open>Ingestion process failed.\<close>; the error that wraps the message of the cause,
  \<^verbatim>\<open>OpenRouter API call failed: ...\<close>, is caught by the outer \<^verbatim>\<open>catch\<close> and only its
  message is logged.
\<close>

theorem embedding_failure_stores_nothing:
  assumes "fs_mkdir e (tempDir_of e) = None"
      and "storage_download e (storage_path d) = Inr buf"
      and "fs_writeFile e (tempFilePath_of e d) buf = None"
      and "pdf_parse e buf = Inr docs"
      and "splitDocuments e 1000 200 docs = Inr chunks"
      and "chunks \<noteq> []"
      and "openai_embedDocuments e (map pageContent chunks) = Inl cause"
  shows "vectors (snd (ingestDocument e d s)) = vectors s \<and>
         fst (ingestDocument e d s) = Inl (Error (lit ''Ingestion process failed.'')) \<and>
         (ERROR, [lit ''Ingestion failed:'', lit ''OpenRouter API call failed: '' @ message cause])
           \<in> set (logs (snd (ingestDocument e d s)))"
proof -
  have failed: "fst (ingestDocument e d s) = Inl (Error (lit ''Ingestion process failed.''))"
    using assms by (simp add: fst_ingestDocument fst_body)
  moreover from failed have "vectors (snd (ingestDocument e d s)) = vectors s"
    by (rule vectors_ingestDocument_failed)
  moreover have "(ERROR, [lit ''Ingestion failed:'', lit ''OpenRouter API call failed: '' @ message cause])
           \<in> set (logs (snd (ingestDocument e d s)))"
  proof -
    let ?s1 = "snd (logger LOG [lit ''Starting ingestion for document: '' @ file_name d] s)"
    let ?s2 = "snd (try_catch (ingest_body e d (tempDir_of e) (tempFilePath_of e d)) ingest_catch ?s1)"
    have "(ERROR, [lit ''Ingestion failed:'', lit ''OpenRouter API call failed: '' @ message cause])
            \<in> set (logs ?s2)"
      by (rule logs_body_embed_failed [OF assms])
    then have "(ERROR, [lit ''Ingestion failed:'', lit ''OpenRouter API call failed: '' @ message cause])
            \<in> set (logs (snd (cleanup e (tempDir_of e) ?s2)))"
      by (rule rev_subsetD) (rule logs_cleanup)
    then show ?thesis by (simp add: ingestDocument_unfold)
  qed
  ultimately show ?thesis by blast
qed

theorem embedding_failure_stores_nothing_witness:
  "vectors (snd (ingestDocument embed_fail_env demo_document demo_world)) = [] \<and>
   fst (ingestDocument embed_fail_env demo_document demo_world)
     = Inl (Error (lit ''Ingestion process failed.'')) \<and>
   (ERROR, [lit ''Ingestion failed:'', lit ''OpenRouter API call failed: 429''])
     \<in> set (logs (snd (ingestDocument embed_fail_env demo_document demo_world)))"
proof -
  have "fs_mkdir embed_fail_env (tempDir_of embed_fail_env) = None"
    and "storage_download embed_fail_env (storage_path demo_document) = Inr [0x25, 0x50, 0x44, 0x46]"
    and "fs_writeFile embed_fail_env (tempFilePath_of embed_fail_env demo_document)
           [0x25, 0x50, 0x44, 0x46] = None"
    and "pdf_parse embed_fail_env [0x25, 0x50, 0x44, 0x46]
           = Inr [\<lparr>pageContent = lit ''hello world'',
                   metadata = [(''loc'', Obj [(''pageNumber'', Num 1)])]\<rparr>]"
    and "splitDocuments embed_fail_env 1000 200
           [\<lparr>pageContent = lit ''hello world'',
             metadata = [(''loc'', Obj [(''pageNumber'', Num 1)])]\<rparr>]
           = Inr [\<lparr>pageContent = lit ''hello world'',
                   metadata = [(''loc'', Obj [(''pageNumber'', Num 1)])]\<rparr>]"
    and "[\<lparr>pageContent = lit ''hello world'',
            metadata = [(''loc'', Obj [(''pageNumber'', Num 1)])]\<rparr>] \<noteq> []"
    and "openai_embedDocuments embed_fail_env
           (map pageContent [\<lparr>pageContent = lit ''hello world'',
                               metadata = [(''loc'', Obj [(''pageNumber'', Num 1)])]\<rparr>])
           = Inl (Error (lit ''429''))"
    by (simp_all add: embed_fail_env_def ok_env_def)
  from embedding_failure_stores_nothing [OF this, of demo_world]
  show ?thesis by (simp add: demo_world_def lit_def)
qed

text \<open>
  C2, as the claim states it, fails in its last part: the embedding call is rejected
  with message \<^verbatim>\<open>429\<close>, and the error that reaches the caller is
  \<^verbatim>\<open>Ingestion process failed.\<close>, which does not contain the message of the cause.
\<close>

theorem embedding_cause_not_surfaced_counterexample:
  "openai_embedDocuments embed_fail_env [lit ''hello world''] = Inl (Error (lit ''429'')) \<and>
   fst (ingestDocument embed_fail_env demo_document demo_world)
     = Inl (Error (lit ''Ingestion process failed.'')) \<and>
   \<not> sublist (lit ''429'') (lit ''Ingestion process failed.'')"
proof (intro conjI)
  show "openai_embedDocuments embed_fail_env [lit ''hello world''] = Inl (Error (lit ''429''))"
    by (simp add: embed_fail_env_def ok_env_def)
  show "fst (ingestDocument embed_fail_env demo_document demo_world)
          = Inl (Error (lit ''Ingestion process failed.''))"
    by (simp add: fst_ingestDocument fst_body embed_fail_env_def ok_env_def)
  show "\<not> sublist (lit ''429'') (lit ''Ingestion process failed.'')"
  proof
    assume "sublist (lit ''429'') (lit ''Ingestion process failed.'')"
    then have "set (lit ''429'') \<subseteq> set (lit ''Ingestion process failed.'')"
      by (rule set_mono_sublist)
    then show False by (simp add: lit_def)
  qed
qed

subsection \<open>A document without chunks\<close>

lemma body_no_chunks:
  assumes "fs_mkdir e dir = None"
      and "storage_download e (storage_path d) = Inr buf"
      and "fs_writeFile e path buf = None"
      and "pdf_parse e buf = Inr docs"
      and "splitDocuments e 1000 200 docs = Inr []"
  shows "vectors (snd (try_catch (ingest_body e d dir path) ingest_catch s)) = vectors s \<and>
         (WARN, [lit ''No chunks were created. PDF might be empty or unreadable.''])
           \<in> set (logs (snd (try_catch (ingest_body e d dir path) ingest_catch s)))"
  using assms by (simp add: io_defs step_defs body_defs)

text \<open>
  C5, as the code has it. When the splitter returns no chunk, the run raises no error,
  writes the warning to the log, stores no vector, and resolves to \<^verbatim>\<open>undefined\<close>
  (\<open>None\<close>): there is no result record in this case.
\<close>

theorem zero_chunks_returns_undefined:
  assumes "fs_mkdir e (tempDir_of e) = None"
      and "storage_download e (storage_path d) = Inr buf"
      and "fs_writeFile e (tempFilePath_of e d) buf = None"
      and "pdf_parse e buf = Inr docs"
      and "splitDocuments e 1000 200 docs = Inr []"
  shows "fst (ingestDocument e d s) = Inr None \<and>
         vectors (snd (ingestDocument e d s)) = vectors s \<and>
         (WARN, [lit ''No chunks were created. PDF might be empty or unreadable.''])
           \<in> set (logs (snd (ingestDocument e d s)))"
proof -
  let ?s1 = "snd (logger LOG [lit ''Starting ingestion for document: '' @ file_name d] s)"
  let ?s2 = "snd (try_catch (ingest_body e d (tempDir_of e) (tempFilePath_of e d)) ingest_catch ?s1)"
  have "fst (ingestDocument e d s) = Inr None"
    using assms by (simp add: fst_ingestDocument fst_body)
  moreover from body_no_chunks [OF assms, of ?s1]
  have v: "vectors ?s2 = vectors ?s1"
    and w: "(WARN, [lit ''No chunks were created. PDF might be empty or unreadable.''])
              \<in> set (logs ?s2)"
    by simp_all
  from v have "vectors (snd (ingestDocument e d s)) = vectors s"
    by (simp add: ingestDocument_unfold vectors_cleanup logger_def)
  moreover from w
  have "(WARN, [lit ''No chunks were created. PDF might be empty or unreadable.''])
          \<in> set (logs (snd (cleanup e (tempDir_of e) ?s2)))"
    by (rule rev_subsetD) (rule logs_cleanup)
  then have "(WARN, [lit ''No chunks were created. PDF might be empty or unreadable.''])
          \<in> set (logs (snd (ingestDocument e d s)))"
    by (simp add: ingestDocument_unfold)
  ultimately show ?thesis by blast
qed

theorem zero_chunks_returns_undefined_witness:
  "fst (ingestDocument no_chunks_env demo_document demo_world) = Inr None \<and>
   vectors (snd (ingestDocument no_chunks_env demo_document demo_world)) = [] \<and>
   (WARN, [lit ''No chunks were created. PDF might be empty or unreadable.''])
     \<in> set (logs (snd (ingestDocument no_chunks_env demo_document demo_world)))"
proof -
  have "fs_mkdir no_chunks_env (tempDir_of no_chunks_env) = None"
    and "storage_download no_chunks_env (storage_path demo_document) = Inr [0x25, 0x50, 0x44, 0x46]"
    and "fs_writeFile no_chunks_env (tempFilePath_of no_chunks_env demo_document)
           [0x25, 0x50, 0x44, 0x46] = None"
    and "pdf_parse no_chunks_env [0x25, 0x50, 0x44, 0x46]
           = Inr [\<lparr>pageContent = lit ''hello world'',
                   metadata = [(''loc'', Obj [(''pageNumber'', Num 1)])]\<rparr>]"
    and "splitDocuments no_chunks_env 1000 200
           [\<lparr>pageContent = lit ''hello world'',
             metadata = [(''loc'', Obj [(''pageNumber'', Num 1)])]\<rparr>] = Inr []"
    by (simp_all add: no_chunks_env_def ok_env_def)
  from zero_chunks_returns_undefined [OF this, of demo_world]
  show ?thesis by (simp add: demo_world_def)
qed

text \<open>
  C5, as the claim states it, fails in its last part: for a document without chunks the
  caller receives \<^verbatim>\<open>undefined\<close>, not a record whose \<^verbatim>\<open>chunkCount\<close> is 0.
\<close>

theorem zero_chunks_no_chunkCount_counterexample:
  "splitDocuments no_chunks_env 1000 200
     [\<lparr>pageContent = lit ''hello world'', metadata = [(''loc'', Obj [(''pageNumber'', Num 1)])]\<rparr>]
     = Inr [] \<and>
   fst (ingestDocument no_chunks_env demo_document demo_world) = Inr None \<and>
   map_option chunkCount None \<noteq> Some 0"
  by (simp add: fst_ingestDocument fst_body no_chunks_env_def ok_env_def)

subsection \<open>Release of the temporary directory\<close>

lemma fs_ingestDocument:
  "fs_rm e (tempDir_of e) = None \<Longrightarrow> inside (tempDir_of e) p \<Longrightarrow>
     fs (snd (ingestDocument e d s)) p = None"
  by (simp add: ingestDocument_unfold fs_cleanup)

lemma fs_ingestDocument_or:
  "fs_rm e (tempDir_of e) = None \<Longrightarrow> inside (tempDir_of e) p \<Longrightarrow>
     fs (snd (ingestDocument_or e c d s)) p = None"
  by (simp add: ingestDocument_or_unfold fs_cleanup)

lemma fst_ingestDocument_fs_rm:
  "fst (ingestDocument (e\<lparr>fs_rm := r\<rparr>) d s) = fst (ingestDocument e d s)"
  by (simp only: fst_ingestDocument fst_body) (simp add: tempDir_of_def tempFilePath_of_def cong: option.case_cong sum.case_cong if_cong)

lemma fst_ingestDocument_or_fs_rm:
  "fst (ingestDocument_or (e\<lparr>fs_rm := r\<rparr>) c d s) = fst (ingestDocument_or e c d s)"
  by (simp only: fst_ingestDocument_or fst_body_or) (simp add: tempDir_of_def tempFilePath_of_def cong: option.case_cong sum.case_cong if_cong)

text \<open>Once the temporary file is written, nothing in the \<^verbatim>\<open>try\<close> or the \<^verbatim>\<open>catch\<close> removes it.\<close>

lemma fs_body_written:
  assumes "fs_mkdir e dir = None"
      and "storage_download e (storage_path d) = Inr buf"
      and "fs_writeFile e path buf = None"
  shows "fs (snd (try_catch (ingest_body e d dir path) ingest_catch s)) path = Some (File buf)"
  using assms
  by (simp add: io_defs step_defs body_defs ingest_catch_def Let_def split: all_splits)

lemma fs_body_or_written:
  assumes "fs_mkdir e dir = None"
      and "storage_download e (storage_path d) = Inr buf"
      and "fs_writeFile e path buf = None"
  shows "fs (snd (try_catch (ingest_body_or e c d dir path) (ingest_catch_or e) s)) path
           = Some (File buf)"
  using assms
  by (simp add: io_defs step_defs body_or_defs ingest_catch_or_def Let_def split: all_splits)

lemma temp_file_outside_left:
  assumes "fs_mkdir e (tempDir_of e) = None"
      and "storage_download e (storage_path d) = Inr buf"
      and "fs_writeFile e (tempFilePath_of e d) buf = None"
      and "fs_rm e (tempDir_of e) = None"
      and "\<not> inside (tempDir_of e) (tempFilePath_of e d)"
  shows "fs (snd (ingestDocument e d s)) (tempFilePath_of e d) = Some (File buf)"
    and "fs (snd (ingestDocument_or e c d s)) (tempFilePath_of e d) = Some (File buf)"
  using assms fs_body_written [OF assms(1-3)] fs_body_or_written [OF assms(1-3)]
  by (simp_all add: ingestDocument_unfold ingestDocument_or_unfold fs_cleanup)

lemma tempDir_of_ok_env: "tempDir_of ok_env = lit ''/app/temp-uploads''"
  by (simp add: tempDir_of_def path_join_def normalize_def slash_def ok_env_def lit_def Let_def)

lemma tempFilePath_of_evil: "tempFilePath_of ok_env evil_document = lit ''/app/evil.pdf''"
  by (simp add: tempFilePath_of_def tempDir_of_def path_join_def normalize_def slash_def
      ok_env_def evil_document_def lit_def Let_def)

lemma tempFilePath_of_demo:
  "tempFilePath_of ok_env demo_document = lit ''/app/temp-uploads/handbook.pdf''"
  by (simp add: tempFilePath_of_def tempDir_of_def path_join_def normalize_def slash_def
      ok_env_def demo_document_def lit_def Let_def)

text \<open>
  C6, at a document whose file name is \<^verbatim>\<open>../evil.pdf\<close>. With the working directory
  \<^verbatim>\<open>/app\<close> the temporary directory is \<^verbatim>\<open>/app/temp-uploads\<close> and \<^verbatim>\<open>path.join\<close> gives
  \<^verbatim>\<open>/app/evil.pdf\<close> as the path of the temporary file, outside that directory. Every
  collaborator succeeds, the removal in the \<^verbatim>\<open>finally\<close> block too: the run returns its
  result and the temporary directory is gone, but the temporary file is still on the
  disk with the downloaded content, in both versions of \<^verbatim>\<open>ingestDocument\<close>. For the
  file name \<^verbatim>\<open>handbook.pdf\<close> the same run leaves neither the directory nor the file.
\<close>

theorem temp_file_outside_not_released:
  "tempDir_of ok_env = lit ''/app/temp-uploads'' \<and>
   tempFilePath_of ok_env evil_document = lit ''/app/evil.pdf'' \<and>
   fs_rm ok_env (lit ''/app/temp-uploads'') = None \<and>
   fst (ingestDocument ok_env evil_document demo_world) = Inr (Some demo_result) \<and>
   fs (snd (ingestDocument ok_env evil_document demo_world)) (lit ''/app/temp-uploads'') = None \<and>
   fs (snd (ingestDocument ok_env evil_document demo_world)) (lit ''/app/evil.pdf'')
     = Some (File [0x25, 0x50, 0x44, 0x46]) \<and>
   fs (snd (ingestDocument_or ok_env demo_client evil_document demo_world)) (lit ''/app/evil.pdf'')
     = Some (File [0x25, 0x50, 0x44, 0x46]) \<and>
   fs (snd (ingestDocument ok_env demo_document demo_world)) (lit ''/app/temp-uploads'') = None \<and>
   fs (snd (ingestDocument ok_env demo_document demo_world))
     (lit ''/app/temp-uploads/handbook.pdf'') = None"
proof -
  have rm: "fs_rm ok_env (tempDir_of ok_env) = None"
    and mk: "fs_mkdir ok_env (tempDir_of ok_env) = None"
    and dl: "storage_download ok_env (storage_path evil_document) = Inr [0x25, 0x50, 0x44, 0x46]"
    and wr: "fs_writeFile ok_env (tempFilePath_of ok_env evil_document) [0x25, 0x50, 0x44, 0x46] = None"
    by (simp_all add: ok_env_def)
  have outside: "\<not> inside (tempDir_of ok_env) (tempFilePath_of ok_env evil_document)"
    by (simp add: tempDir_of_ok_env tempFilePath_of_evil inside_def lit_def)
  have within: "inside (tempDir_of ok_env) (tempFilePath_of ok_env demo_document)"
    by (simp add: tempDir_of_ok_env tempFilePath_of_demo inside_def lit_def)
  have self: "inside (tempDir_of ok_env) (tempDir_of ok_env)"
    by (simp add: inside_def)
  have run: "fst (ingestDocument ok_env evil_document demo_world) = Inr (Some demo_result)"
    by (simp add: fst_ingestDocument fst_body ok_env_def demo_result_def substring0_def lit_def)
  from temp_file_outside_left(1) [OF mk dl wr rm outside, where s = demo_world]
    temp_file_outside_left(2) [OF mk dl wr rm outside, where s = demo_world and c = demo_client]
    fs_ingestDocument [OF rm self, of evil_document demo_world]
    fs_ingestDocument [OF rm self, of demo_document demo_world]
    fs_ingestDocument [OF rm within, of demo_document demo_world]
    run rm
  show ?thesis
    by (simp add: tempDir_of_ok_env tempFilePath_of_evil tempFilePath_of_demo)
qed

subsection \<open>The result object\<close>

lemma run_tasks_Inr_length:
  "fst (embedDocuments c texts n) = Inr vs \<Longrightarrow> length vs = length texts"
proof -
  assume "fst (embedDocuments c texts n) = Inr vs"
  then have "fst (run_tasks c texts n) = map Inr vs"
    by (cases "run_tasks c texts n") (simp add: embedDocuments_def promise_all_Inr)
  then have "length (fst (run_tasks c texts n)) = length vs"
    by simp
  then show ?thesis
    by (simp add: run_tasks_length)
qed

lemma result_inversion:
  assumes "fst (ingestDocument e d s) = Inr (Some r)"
  shows "\<exists>buf docs chunks.
           storage_download e (storage_path d) = Inr buf \<and>
           pdf_parse e buf = Inr docs \<and>
           splitDocuments e 1000 200 docs = Inr chunks \<and>
           chunks \<noteq> [] \<and>
           r = \<lparr>chunkCount = length chunks,
                firstChunkText = substring0 (pageContent (hd chunks)) 200 @ lit ''...''\<rparr>"
  using assms
  by (auto simp: fst_ingestDocument fst_body split: option.splits sum.splits if_splits)

lemma result_inversion_or:
  assumes "fst (ingestDocument_or e c d s) = Inr (Some r)"
  shows "\<exists>buf docs chunks.
           storage_download e (storage_path d) = Inr buf \<and>
           pdf_parse e buf = Inr docs \<and>
           splitDocuments e 1000 200 docs = Inr chunks \<and>
           chunks \<noteq> [] \<and>
           r = \<lparr>chunkCount = length chunks,
                firstChunkText = substring0 (pageContent (hd chunks)) 200 @ lit ''...''\<rparr>"
  using assms
  by (auto simp: fst_ingestDocument_or fst_body_or split: option.splits sum.splits if_splits)

lemma first_chunk_text_hd:
  "chunks \<noteq> [] \<Longrightarrow>
     first_chunk_text chunks = Inr (substring0 (pageContent (hd chunks)) 200 @ lit ''...'')"
  by (cases chunks) (simp_all add: first_chunk_text_def)

lemma success_path:
  assumes "fs_mkdir e (tempDir_of e) = None"
      and "storage_download e (storage_path d) = Inr buf"
      and "fs_writeFile e (tempFilePath_of e d) buf = None"
      and "pdf_parse e buf = Inr docs"
      and "splitDocuments e 1000 200 docs = Inr chunks"
      and "openai_embedDocuments e (map pageContent chunks) = Inr vs"
      and "length vs = length chunks"
      and "\<forall>rows. vectors_insert e rows = None"
  shows "fst (ingestDocument e d s) =
           Inr (if chunks = [] then None
                else Some \<lparr>chunkCount = length chunks,
                           firstChunkText = substring0 (pageContent (hd chunks)) 200 @ lit ''...''\<rparr>)"
  using assms by (simp add: fst_ingestDocument fst_body)

lemma success_path_or:
  assumes "fs_mkdir e (tempDir_of e) = None"
      and "storage_download e (storage_path d) = Inr buf"
      and "fs_writeFile e (tempFilePath_of e d) buf = None"
      and "pdf_parse e buf = Inr docs"
      and "splitDocuments e 1000 200 docs = Inr chunks"
      and "fst (embedDocuments c (map pageContent chunks) (api_calls s)) = Inr vs"
      and "\<forall>rows. vectors_insert e rows = None"
  shows "fst (ingestDocument_or e c d s) =
           Inr (if chunks = [] then None
                else Some \<lparr>chunkCount = length chunks,
                           firstChunkText = substring0 (pageContent (hd chunks)) 200 @ lit ''...''\<rparr>)"
proof -
  from assms(6) have "length vs = length chunks"
    by (auto dest: run_tasks_Inr_length)
  with assms show ?thesis
    by (simp add: fst_ingestDocument_or fst_body_or logger_def)
qed

text \<open>
  C10. In both versions of \<^verbatim>\<open>ingestDocument\<close>: a run that resolves to a result object
  had a non-empty list of chunks; its \<^verbatim>\<open>chunkCount\<close> is the positive length of that
  list, and \<^verbatim>\<open>chunks[0].pageContent\<close> was read within bounds, giving \<^verbatim>\<open>firstChunkText\<close>.
  And the building of the result is no source of failure: when every collaborator
  succeeds, the run resolves, to \<^verbatim>\<open>undefined\<close> for an empty list of chunks (the early
  return) and to the result object otherwise.
\<close>

theorem result_has_first_chunk:
  "(fst (ingestDocument e d s) = Inr (Some r) \<or> fst (ingestDocument_or e c d s) = Inr (Some r) \<longrightarrow>
      (\<exists>buf docs chunks.
          storage_download e (storage_path d) = Inr buf \<and>
          pdf_parse e buf = Inr docs \<and>
          splitDocuments e 1000 200 docs = Inr chunks \<and>
          chunks \<noteq> [] \<and> 0 < length chunks \<and>
          chunkCount r = length chunks \<and>
          first_chunk_text chunks = Inr (firstChunkText r))) \<and>
   (fs_mkdir e (tempDir_of e) = None \<and>
    storage_download e (storage_path d) = Inr buf' \<and>
    fs_writeFile e (tempFilePath_of e d) buf' = None \<and>
    pdf_parse e buf' = Inr docs' \<and>
    splitDocuments e 1000 200 docs' = Inr chunks' \<and>
    (\<forall>rows. vectors_insert e rows = None) \<longrightarrow>
      (openai_embedDocuments e (map pageContent chunks') = Inr vs \<and> length vs = length chunks' \<longrightarrow>
         fst (ingestDocument e d s) =
           Inr (if chunks' = [] then None
                else Some \<lparr>chunkCount = length chunks',
                           firstChunkText = substring0 (pageContent (chunks' ! 0)) 200 @ lit ''...''\<rparr>)) \<and>
      (fst (embedDocuments c (map pageContent chunks') (api_calls s)) = Inr vs \<longrightarrow>
         fst (ingestDocument_or e c d s) =
           Inr (if chunks' = [] then None
                else Some \<lparr>chunkCount = length chunks',
                           firstChunkText = substring0 (pageContent (chunks' ! 0)) 200 @ lit ''...''\<rparr>)))"
proof (intro conjI impI)
  assume "fst (ingestDocument e d s) = Inr (Some r) \<or> fst (ingestDocument_or e c d s) = Inr (Some r)"
  then obtain buf docs chunks where
    "storage_download e (storage_path d) = Inr buf" "pdf_parse e buf = Inr docs"
    "splitDocuments e 1000 200 docs = Inr chunks" "chunks \<noteq> []"
    "r = \<lparr>chunkCount = length chunks,
          firstChunkText = substring0 (pageContent (hd chunks)) 200 @ lit ''...''\<rparr>"
    using result_inversion [of e d s r] result_inversion_or [of e c d s r] by blast
  then show "\<exists>buf docs chunks.
          storage_download e (storage_path d) = Inr buf \<and>
          pdf_parse e buf = Inr docs \<and>
          splitDocuments e 1000 200 docs = Inr chunks \<and>
          chunks \<noteq> [] \<and> 0 < length chunks \<and>
          chunkCount r = length chunks \<and>
          first_chunk_text chunks = Inr (firstChunkText r)"
    by (auto simp: first_chunk_text_hd)
next
  assume all: "fs_mkdir e (tempDir_of e) = None \<and>
    storage_download e (storage_path d) = Inr buf' \<and>
    fs_writeFile e (tempFilePath_of e d) buf' = None \<and>
    pdf_parse e buf' = Inr docs' \<and>
    splitDocuments e 1000 200 docs' = Inr chunks' \<and>
    (\<forall>rows. vectors_insert e rows = None)"
  assume "openai_embedDocuments e (map pageContent chunks') = Inr vs \<and> length vs = length chunks'"
  with all show "fst (ingestDocument e d s) =
           Inr (if chunks' = [] then None
                else Some \<lparr>chunkCount = length chunks',
                           firstChunkText = substring0 (pageContent (chunks' ! 0)) 200 @ lit ''...''\<rparr>)"
    using success_path [of e d buf' docs' chunks' vs s] by (simp add: hd_conv_nth)
next
  assume all: "fs_mkdir e (tempDir_of e) = None \<and>
    storage_download e (storage_path d) = Inr buf' \<and>
    fs_writeFile e (tempFilePath_of e d) buf' = None \<and>
    pdf_parse e buf' = Inr docs' \<and>
    splitDocuments e 1000 200 docs' = Inr chunks' \<and>
    (\<forall>rows. vectors_insert e rows = None)"
  assume "fst (embedDocuments c (map pageContent chunks') (api_calls s)) = Inr vs"
  with all show "fst (ingestDocument_or e c d s) =
           Inr (if chunks' = [] then None
                else Some \<lparr>chunkCount = length chunks',
                           firstChunkText = substring0 (pageContent (chunks' ! 0)) 200 @ lit ''...''\<rparr>)"
    using success_path_or [of e d buf' docs' chunks' c s vs] by (simp add: hd_conv_nth)
qed

theorem result_has_first_chunk_witness:
  "fst (ingestDocument ok_env demo_document demo_world) = Inr (Some demo_result) \<and>
   fst (ingestDocument_or ok_env demo_client demo_document demo_world) = Inr (Some demo_result) \<and>
   (\<exists>buf docs chunks.
      storage_download ok_env (storage_path demo_document) = Inr buf \<and>
      pdf_parse ok_env buf = Inr docs \<and>
      splitDocuments ok_env 1000 200 docs = Inr chunks \<and>
      chunks \<noteq> [] \<and> 0 < length chunks \<and>
      chunkCount demo_result = length chunks \<and>
      first_chunk_text chunks = Inr (firstChunkText demo_result))"
proof -
  have steps: "fs_mkdir ok_env (tempDir_of ok_env) = None \<and>
      storage_download ok_env (storage_path demo_document) = Inr [0x25, 0x50, 0x44, 0x46] \<and>
      fs_writeFile ok_env (tempFilePath_of ok_env demo_document) [0x25, 0x50, 0x44, 0x46] = None \<and>
      pdf_parse ok_env [0x25, 0x50, 0x44, 0x46] = Inr [demo_page] \<and>
      splitDocuments ok_env 1000 200 [demo_page] = Inr [demo_page] \<and>
      (\<forall>rows. vectors_insert ok_env rows = None)"
    by (simp add: ok_env_def demo_page_def)
  have openai: "openai_embedDocuments ok_env (map pageContent [demo_page]) = Inr [[11]] \<and>
      length [[11::real]] = length [demo_page]"
    by (simp add: ok_env_def demo_page_def lit_def)
  have openrouter: "fst (embedDocuments demo_client (map pageContent [demo_page])
                           (api_calls demo_world)) = Inr [[0, 11]]"
    by (simp add: embedDocuments_def embed_task_def embedQuery_def demo_client_def
        demo_world_def demo_page_def lit_def)
  have preview: "substring0 (pageContent ([demo_page] ! 0)) 200 @ lit ''...'' = lit ''hello world...''"
    by (simp add: substring0_def demo_page_def lit_def)
  from steps openai preview
    result_has_first_chunk [where e = ok_env and d = demo_document and s = demo_world
      and buf' = "[0x25, 0x50, 0x44, 0x46]" and docs' = "[demo_page]" and chunks' = "[demo_page]"
      and vs = "[[11]]"]
  have run: "fst (ingestDocument ok_env demo_document demo_world) = Inr (Some demo_result)"
    by (simp add: demo_result_def)
  from steps openrouter preview
    result_has_first_chunk [where e = ok_env and d = demo_document and s = demo_world
      and c = demo_client
      and buf' = "[0x25, 0x50, 0x44, 0x46]" and docs' = "[demo_page]" and chunks' = "[demo_page]"
      and vs = "[[0, 11]]"]
  have run_or: "fst (ingestDocument_or ok_env demo_client demo_document demo_world)
                  = Inr (Some demo_result)"
    by (simp add: demo_result_def)
  from run result_has_first_chunk [where e = ok_env and d = demo_document and s = demo_world
      and r = demo_result]
  have "\<exists>buf docs chunks.
      storage_download ok_env (storage_path demo_document) = Inr buf \<and>
      pdf_parse ok_env buf = Inr docs \<and>
      splitDocuments ok_env 1000 200 docs = Inr chunks \<and>
      chunks \<noteq> [] \<and> 0 < length chunks \<and>
      chunkCount demo_result = length chunks \<and>
      first_chunk_text chunks = Inr (firstChunkText demo_result)"
    by blast
  with run run_or show ?thesis by blast
qed

subsection \<open>The loader\<close>

lemma fst_parse_failed:
  assumes "fs_mkdir e (tempDir_of e) = None"
      and "storage_download e (storage_path d) = Inr buf"
      and "fs_writeFile e (tempFilePath_of e d) buf = None"
      and "pdf_parse e buf = Inl err"
  shows "fst (ingestDocument e d s) = Inl (Error (lit ''Ingestion process failed.''))"
  using assms by (simp add: fst_ingestDocument fst_body)

text \<open>
  C8, as the code has it. Every document that is downloaded and written to the
  temporary file is read by the PDF loader, whatever its file name: when the PDF parser
  rejects the content, the run fails with \<^verbatim>\<open>Ingestion process failed.\<close> and stores no
  vector; and a result object counts the chunks that the splitter made of the pages of
  the PDF parser. There is no other extraction.
\<close>

theorem every_document_read_as_pdf:
  assumes "fs_mkdir e (tempDir_of e) = None"
      and "storage_download e (storage_path d) = Inr buf"
      and "fs_writeFile e (tempFilePath_of e d) buf = None"
  shows "(pdf_parse e buf = Inl err \<longrightarrow>
            fst (ingestDocument e d s) = Inl (Error (lit ''Ingestion process failed.'')) \<and>
            vectors (snd (ingestDocument e d s)) = vectors s) \<and>
         (fst (ingestDocument e d s) = Inr (Some r) \<longrightarrow>
            (\<exists>docs chunks. pdf_parse e buf = Inr docs \<and>
               splitDocuments e 1000 200 docs = Inr chunks \<and>
               chunkCount r = length chunks))"
proof (intro conjI impI)
  assume "pdf_parse e buf = Inl err"
  with assms show "fst (ingestDocument e d s) = Inl (Error (lit ''Ingestion process failed.''))"
    by (rule fst_parse_failed)
  then show "vectors (snd (ingestDocument e d s)) = vectors s"
    by (rule vectors_ingestDocument_failed)
next
  assume "fst (ingestDocument e d s) = Inr (Some r)"
  from result_inversion [OF this] assms(2)
  show "\<exists>docs chunks. pdf_parse e buf = Inr docs \<and>
          splitDocuments e 1000 200 docs = Inr chunks \<and> chunkCount r = length chunks"
    by auto
qed

theorem every_document_read_as_pdf_witness:
  "fst (ingestDocument text_file_env text_document demo_world)
     = Inl (Error (lit ''Ingestion process failed.'')) \<and>
   vectors (snd (ingestDocument text_file_env text_document demo_world)) = [] \<and>
   fst (ingestDocument ok_env demo_document demo_world) = Inr (Some demo_result) \<and>
   (\<exists>docs chunks. pdf_parse ok_env [0x25, 0x50, 0x44, 0x46] = Inr docs \<and>
      splitDocuments ok_env 1000 200 docs = Inr chunks \<and>
      chunkCount demo_result = length chunks)"
proof -
  have "fs_mkdir text_file_env (tempDir_of text_file_env) = None"
    and "storage_download text_file_env (storage_path text_document) = Inr [0x68, 0x69]"
    and "fs_writeFile text_file_env (tempFilePath_of text_file_env text_document) [0x68, 0x69] = None"
    by (simp_all add: text_file_env_def ok_env_def)
  moreover have "pdf_parse text_file_env [0x68, 0x69] = Inl (Error (lit ''Invalid PDF structure.''))"
    by (simp add: text_file_env_def ok_env_def)
  ultimately have rejected:
    "fst (ingestDocument text_file_env text_document demo_world)
       = Inl (Error (lit ''Ingestion process failed.'')) \<and>
     vectors (snd (ingestDocument text_file_env text_document demo_world)) = []"
    using every_document_read_as_pdf
            [of text_file_env text_document "[0x68, 0x69]" "Error (lit ''Invalid PDF structure.'')"
               demo_world]
    by (simp add: demo_world_def)
  have "fs_mkdir ok_env (tempDir_of ok_env) = None"
    and "storage_download ok_env (storage_path demo_document) = Inr [0x25, 0x50, 0x44, 0x46]"
    and "fs_writeFile ok_env (tempFilePath_of ok_env demo_document) [0x25, 0x50, 0x44, 0x46] = None"
    by (simp_all add: ok_env_def)
  moreover have run: "fst (ingestDocument ok_env demo_document demo_world) = Inr (Some demo_result)"
    by (simp add: fst_ingestDocument fst_body ok_env_def demo_result_def substring0_def lit_def)
  ultimately have "\<exists>docs chunks. pdf_parse ok_env [0x25, 0x50, 0x44, 0x46] = Inr docs \<and>
      splitDocuments ok_env 1000 200 docs = Inr chunks \<and>
      chunkCount demo_result = length chunks"
    using every_document_read_as_pdf
            [of ok_env demo_document "[0x25, 0x50, 0x44, 0x46]" _ demo_world demo_result]
    by blast
  with rejected run show ?thesis by blast
qed

text \<open>
  C8, as the claim states it, fails: the text file \<^verbatim>\<open>notes.txt\<close>, whose content is the
  two bytes of \<^verbatim>\<open>hi\<close>, is not passed through. It is given to the PDF parser, which
  rejects it, and the run fails and stores nothing.
\<close>

theorem text_file_not_passed_through_counterexample:
  "file_name text_document = lit ''notes.txt'' \<and>
   storage_download text_file_env (storage_path text_document) = Inr [0x68, 0x69] \<and>
   pdf_parse text_file_env [0x68, 0x69] = Inl (Error (lit ''Invalid PDF structure.'')) \<and>
   fst (ingestDocument text_file_env text_document demo_world)
     = Inl (Error (lit ''Ingestion process failed.''))"
  by (simp add: fst_ingestDocument fst_body text_file_env_def ok_env_def text_document_def)

section \<open>Chat: retrievals and sources\<close>

lemma generateResponse_Inr:
  assumes "fst (generateResponse e q n) = Inr r"
  shows "\<exists>ctx src.
           retriever_invoke e n 4 q = Inr ctx \<and>
           retriever_invoke e (Suc n) 4 q = Inr src \<and>
           llm_invoke e (prompt_format (formatDocumentsAsString ctx) q) = Inr (answer r) \<and>
           sourceDocuments r = map to_source src \<and>
           snd (generateResponse e q n) = n + 2"
  using assms
  by (auto simp: generateResponse_def ragChain_invoke_def retriever_def split: sum.splits)

lemma length_lit: "length (lit s) = length s"
  by (simp add: lit_def)

lemma to_source_fields:
  "source (to_source doc) = map_of (metadata doc) ''source''"
  "content (to_source doc) = take 200 (pageContent doc) @ lit ''...''"
  "length (content (to_source doc)) \<le> 203"
  by (simp_all add: to_source_def substring0_def length_lit)

text \<open>
  C4, as the code has it. A response of \<^verbatim>\<open>generateResponse\<close> has one source entry per
  chunk of its second retrieval, in retrieval order and with repetitions kept: the entry
  at each position holds the \<^verbatim>\<open>source\<close> of the metadata of the chunk at that position
  and, as \<^verbatim>\<open>content\<close>, the first 200 code units of its text followed by \<^verbatim>\<open>...\<close>.
\<close>

theorem sources_one_per_retrieved_chunk:
  assumes "fst (generateResponse e q n) = Inr r"
  shows "\<exists>docs. retriever_invoke e (Suc n) 4 q = Inr docs \<and>
           length (sourceDocuments r) = length docs \<and>
           (\<forall>i < length docs.
              source (sourceDocuments r ! i) = map_of (metadata (docs ! i)) ''source'' \<and>
              content (sourceDocuments r ! i) = take 200 (pageContent (docs ! i)) @ lit ''...'' \<and>
              length (content (sourceDocuments r ! i)) \<le> 203)"
proof -
  from generateResponse_Inr [OF assms] obtain src where
    src: "retriever_invoke e (Suc n) 4 q = Inr src" and r: "sourceDocuments r = map to_source src"
    by blast
  have "\<forall>i < length src.
          source (sourceDocuments r ! i) = map_of (metadata (src ! i)) ''source'' \<and>
          content (sourceDocuments r ! i) = take 200 (pageContent (src ! i)) @ lit ''...'' \<and>
          length (content (sourceDocuments r ! i)) \<le> 203"
    using to_source_fields by (simp add: r)
  moreover have "length (sourceDocuments r) = length src"
    by (simp add: r)
  ultimately show ?thesis
    using src by blast
qed

theorem sources_one_per_retrieved_chunk_witness:
  "fst (generateResponse demo_chat_env (lit ''What is the refund policy?'') 0) = Inr demo_response \<and>
   (\<exists>docs. retriever_invoke demo_chat_env (Suc 0) 4 (lit ''What is the refund policy?'') = Inr docs \<and>
      length (sourceDocuments demo_response) = length docs \<and>
      (\<forall>i < length docs.
         source (sourceDocuments demo_response ! i) = map_of (metadata (docs ! i)) ''source'' \<and>
         content (sourceDocuments demo_response ! i)
           = take 200 (pageContent (docs ! i)) @ lit ''...'' \<and>
         length (content (sourceDocuments demo_response ! i)) \<le> 203))"
proof -
  have run: "fst (generateResponse demo_chat_env (lit ''What is the refund policy?'') 0)
               = Inr demo_response"
    by (simp add: generateResponse_def ragChain_invoke_def retriever_def demo_chat_env_def
        demo_response_def to_source_def demo_chunk_def substring0_def lit_def)
  with sources_one_per_retrieved_chunk [OF run] show ?thesis by blast
qed

text \<open>
  C4, as the claim states it, fails: the retriever finds the same chunk twice, and the
  response lists the same source entry twice; the entries are not distinct.
\<close>

theorem sources_not_distinct_counterexample:
  "retriever_invoke demo_chat_env 1 4 (lit ''What is the refund policy?'')
     = Inr [demo_chunk, demo_chunk] \<and>
   fst (generateResponse demo_chat_env (lit ''What is the refund policy?'') 0) = Inr demo_response \<and>
   sourceDocuments demo_response = [to_source demo_chunk, to_source demo_chunk] \<and>
   \<not> distinct (sourceDocuments demo_response)"
  by (simp add: generateResponse_def ragChain_invoke_def retriever_def demo_chat_env_def
      demo_response_def to_source_def demo_chunk_def substring0_def lit_def)

lemma join_concat: "join sep (x # xs) = x @ concat (map (\<lambda>y. sep @ y) xs)"
  by (induction xs arbitrary: x) simp_all

lemma formatDocumentsAsString_unfold:
  "formatDocumentsAsString docs =
     (case docs of
        [] \<Rightarrow> []
      | d # ds \<Rightarrow> pageContent d @ concat (map (\<lambda>d'. [0x000A, 0x000A] @ pageContent d') ds))"
  by (cases docs) (simp_all add: formatDocumentsAsString_def join_concat o_def)

lemma generateResponse_unfold:
  "generateResponse e q n =
     (case retriever_invoke e n 4 q of
        Inl err \<Rightarrow> (Inl err, n + 1)
      | Inr ctx \<Rightarrow>
          (case llm_invoke e (prompt_format (formatDocumentsAsString ctx) q) of
             Inl err \<Rightarrow> (Inl err, n + 1)
           | Inr a \<Rightarrow>
               (case retriever_invoke e (n + 1) 4 q of
                  Inl err \<Rightarrow> (Inl err, n + 2)
                | Inr src \<Rightarrow> (Inr \<lparr>answer = a, sourceDocuments = map to_source src\<rparr>, n + 2))))"
  by (simp add: generateResponse_def ragChain_invoke_def retriever_def split: sum.splits)

lemma to_source_eq_iff:
  "to_source a = to_source b \<longleftrightarrow>
     map_of (metadata a) ''source'' = map_of (metadata b) ''source'' \<and>
     take 200 (pageContent a) = take 200 (pageContent b)"
  by (simp add: to_source_def substring0_def)

lemma map_to_source_eq_iff:
  "map to_source src = map to_source ctx \<longleftrightarrow>
     length src = length ctx \<and>
     (\<forall>i < length ctx.
        map_of (metadata (src ! i)) ''source'' = map_of (metadata (ctx ! i)) ''source'' \<and>
        take 200 (pageContent (src ! i)) = take 200 (pageContent (ctx ! i)))"
proof -
  have "map to_source src = map to_source ctx \<longleftrightarrow>
          length src = length ctx \<and> (\<forall>i < length ctx. to_source (src ! i) = to_source (ctx ! i))"
    by (auto simp: list_eq_iff_nth_eq)
  then show ?thesis
    by (simp only: to_source_eq_iff)
qed

text \<open>
  C9, as the code has it. \<^verbatim>\<open>generateResponse\<close> retrieves for the query; the texts of
  the documents found, joined by two line feeds, are the context in the prompt sent to
  the model; then it retrieves a second time, and the documents found then give the
  returned sources. So a response comes from exactly two retrievals, and a query whose
  first retrieval or whose model call is rejected makes one. When the second retrieval
  returns the list of the first, the returned sources are the entries of the documents
  of the context. They are those entries exactly when the two lists have the same length
  and agree, position by position, in the \<^verbatim>\<open>source\<close> of the metadata and in the first 200
  code units of the text; the two lists need not be equal for that.
\<close>

theorem sources_from_second_retrieval:
  "generateResponse e q n =
     (case retriever_invoke e n 4 q of
        Inl err \<Rightarrow> (Inl err, n + 1)
      | Inr ctx \<Rightarrow>
          (case llm_invoke e
                  (RAG_PROMPT_TEMPLATE_head
                   @ (case ctx of
                        [] \<Rightarrow> []
                      | d # ds \<Rightarrow>
                          pageContent d @ concat (map (\<lambda>d'. [0x000A, 0x000A] @ pageContent d') ds))
                   @ RAG_PROMPT_TEMPLATE_middle @ q @ RAG_PROMPT_TEMPLATE_tail) of
             Inl err \<Rightarrow> (Inl err, n + 1)
           | Inr a \<Rightarrow>
               (case retriever_invoke e (n + 1) 4 q of
                  Inl err \<Rightarrow> (Inl err, n + 2)
                | Inr src \<Rightarrow>
                    (Inr \<lparr>answer = a,
                          sourceDocuments =
                            map (\<lambda>d. \<lparr>source = map_of (metadata d) ''source'',
                                       content = take 200 (pageContent d) @ lit ''...''\<rparr>) src\<rparr>,
                     n + 2)))) \<and>
   (retriever_invoke e n 4 q = Inr ctx' \<and> retriever_invoke e (n + 1) 4 q = Inr src' \<and>
    fst (generateResponse e q n) = Inr r \<longrightarrow>
      (src' = ctx' \<longrightarrow>
         sourceDocuments r =
           map (\<lambda>d. \<lparr>source = map_of (metadata d) ''source'',
                      content = take 200 (pageContent d) @ lit ''...''\<rparr>) ctx') \<and>
      (sourceDocuments r =
           map (\<lambda>d. \<lparr>source = map_of (metadata d) ''source'',
                      content = take 200 (pageContent d) @ lit ''...''\<rparr>) ctx' \<longleftrightarrow>
         length src' = length ctx' \<and>
         (\<forall>i < length ctx'.
            map_of (metadata (src' ! i)) ''source'' = map_of (metadata (ctx' ! i)) ''source'' \<and>
            take 200 (pageContent (src' ! i)) = take 200 (pageContent (ctx' ! i)))))"
proof (intro conjI impI)
  have to_source_fun:
    "to_source = (\<lambda>d. \<lparr>source = map_of (metadata d) ''source'',
                        content = take 200 (pageContent d) @ lit ''...''\<rparr>)"
    by (rule ext) (simp add: to_source_def substring0_def)
  show "generateResponse e q n =
     (case retriever_invoke e n 4 q of
        Inl err \<Rightarrow> (Inl err, n + 1)
      | Inr ctx \<Rightarrow>
          (case llm_invoke e
                  (RAG_PROMPT_TEMPLATE_head
                   @ (case ctx of
                        [] \<Rightarrow> []
                      | d # ds \<Rightarrow>
                          pageContent d @ concat (map (\<lambda>d'. [0x000A, 0x000A] @ pageContent d') ds))
                   @ RAG_PROMPT_TEMPLATE_middle @ q @ RAG_PROMPT_TEMPLATE_tail) of
             Inl err \<Rightarrow> (Inl err, n + 1)
           | Inr a \<Rightarrow>
               (case retriever_invoke e (n + 1) 4 q of
                  Inl err \<Rightarrow> (Inl err, n + 2)
                | Inr src \<Rightarrow>
                    (Inr \<lparr>answer = a,
                          sourceDocuments =
                            map (\<lambda>d. \<lparr>source = map_of (metadata d) ''source'',
                                       content = take 200 (pageContent d) @ lit ''...''\<rparr>) src\<rparr>,
                     n + 2))))"
    unfolding generateResponse_unfold prompt_format_def
    by (simp add: formatDocumentsAsString_unfold to_source_fun split: sum.splits)
  assume run: "retriever_invoke e n 4 q = Inr ctx' \<and> retriever_invoke e (n + 1) 4 q = Inr src' \<and>
    fst (generateResponse e q n) = Inr r"
  then have r: "sourceDocuments r = map to_source src'"
    by (auto simp: generateResponse_unfold split: sum.splits)
  show "sourceDocuments r =
          map (\<lambda>d. \<lparr>source = map_of (metadata d) ''source'',
                     content = take 200 (pageContent d) @ lit ''...''\<rparr>) ctx'"
    if "src' = ctx'"
    using r that by (simp add: to_source_fun)
  show "sourceDocuments r =
           map (\<lambda>d. \<lparr>source = map_of (metadata d) ''source'',
                      content = take 200 (pageContent d) @ lit ''...''\<rparr>) ctx' \<longleftrightarrow>
         length src' = length ctx' \<and>
         (\<forall>i < length ctx'.
            map_of (metadata (src' ! i)) ''source'' = map_of (metadata (ctx' ! i)) ''source'' \<and>
            take 200 (pageContent (src' ! i)) = take 200 (pageContent (ctx' ! i)))"
    using map_to_source_eq_iff [of src' ctx'] r
    by (simp add: to_source_fun [symmetric])
qed

theorem sources_from_second_retrieval_witness:
  "generateResponse echo_chat_env (lit ''refunds?'') 0 = (Inr echo_response, 2) \<and>
   retriever_invoke echo_chat_env 0 4 (lit ''refunds?'') = Inr [demo_chunk, faq_chunk] \<and>
   retriever_invoke echo_chat_env 1 4 (lit ''refunds?'') = Inr [demo_chunk, faq_chunk] \<and>
   sourceDocuments echo_response =
     [\<lparr>source = map_of (metadata demo_chunk) ''source'',
       content = take 200 (pageContent demo_chunk) @ lit ''...''\<rparr>,
      \<lparr>source = map_of (metadata faq_chunk) ''source'',
       content = take 200 (pageContent faq_chunk) @ lit ''...''\<rparr>]"
proof -
  note inst = sources_from_second_retrieval
    [of echo_chat_env "lit ''refunds?''" 0 "[demo_chunk, faq_chunk]" "[demo_chunk, faq_chunk]"
        echo_response]
  have first: "retriever_invoke echo_chat_env 0 4 (lit ''refunds?'') = Inr [demo_chunk, faq_chunk]"
    and second: "retriever_invoke echo_chat_env (0 + 1) 4 (lit ''refunds?'') = Inr [demo_chunk, faq_chunk]"
    by (simp_all add: echo_chat_env_def)
  from inst have run: "generateResponse echo_chat_env (lit ''refunds?'') 0 = (Inr echo_response, 2)"
    by (simp add: echo_chat_env_def echo_response_def demo_chunk_def faq_chunk_def lit_def)
  with inst first second
  have "sourceDocuments echo_response =
     map (\<lambda>d. \<lparr>source = map_of (metadata d) ''source'',
                content = take 200 (pageContent d) @ lit ''...''\<rparr>) [demo_chunk, faq_chunk]"
    by simp
  with run first second show ?thesis by simp
qed

text \<open>
  C9, as the claim states it, fails. A query whose model call is rejected makes one
  retrieval, not two. And with the drifting service the two retrievals of one query
  return different lists, yet the returned sources are exactly the entries of the
  document whose text is in the context of the prompt: the difference lies behind the
  200th code unit, which no entry shows.
\<close>

theorem sources_match_without_determinism_counterexample:
  "generateResponse no_model_chat_env (lit ''refunds?'') 0 = (Inl (Error (lit ''503'')), 1) \<and>
   retriever_invoke drifting_chat_env 0 4 (lit ''refunds?'') = Inr [long_chunk 0x0058] \<and>
   retriever_invoke drifting_chat_env 1 4 (lit ''refunds?'') = Inr [long_chunk 0x0059] \<and>
   long_chunk 0x0058 \<noteq> long_chunk 0x0059 \<and>
   generateResponse drifting_chat_env (lit ''refunds?'') 0 = (Inr drifting_response, 2) \<and>
   answer drifting_response
     = prompt_format (formatDocumentsAsString [long_chunk 0x0058]) (lit ''refunds?'') \<and>
   sourceDocuments drifting_response = [to_source (long_chunk 0x0058)]"
proof (intro conjI)
  show "generateResponse no_model_chat_env (lit ''refunds?'') 0 = (Inl (Error (lit ''503'')), 1)"
    by (simp add: generateResponse_unfold no_model_chat_env_def)
  show "retriever_invoke drifting_chat_env 0 4 (lit ''refunds?'') = Inr [long_chunk 0x0058]"
    by (simp add: drifting_chat_env_def)
  show "retriever_invoke drifting_chat_env 1 4 (lit ''refunds?'') = Inr [long_chunk 0x0059]"
    by (simp add: drifting_chat_env_def)
  show "long_chunk 0x0058 \<noteq> long_chunk 0x0059"
    by (simp add: long_chunk_def)
  show "generateResponse drifting_chat_env (lit ''refunds?'') 0 = (Inr drifting_response, 2)"
    by (simp add: generateResponse_unfold drifting_chat_env_def drifting_response_def
        prompt_format_def formatDocumentsAsString_def to_source_def substring0_def
        long_chunk_def lit_def)
  show "answer drifting_response
          = prompt_format (formatDocumentsAsString [long_chunk 0x0058]) (lit ''refunds?'')"
    by (simp add: drifting_response_def prompt_format_def formatDocumentsAsString_def
        long_chunk_def lit_def)
  show "sourceDocuments drifting_response = [to_source (long_chunk 0x0058)]"
    by (simp add: drifting_response_def to_source_def substring0_def long_chunk_def lit_def)
qed

end
